theory Spec2Isabelle
  imports Complex_Main "HOL-Library.AList"
begin

section \<open>Numbers, time and strings\<close>

text \<open>
  The program is \<^verbatim>\<open>tick_taker.py\<close>. Its prices, sizes and quantities are Python floats;
  they are read here as exact rationals (\<^typ>\<open>rat\<close>), so no statement below speaks about
  binary rounding. Timestamps are integers counting nanoseconds; \<^verbatim>\<open>pd.Timedelta\<close> values
  are integers in the same unit. Symbols, sides and event names are ASCII strings.
\<close>

definition IMBALANCE_THRESHOLD :: rat where
  "IMBALANCE_THRESHOLD = 18 / 10"

definition ABORT_IF_CLOSED :: bool where
  "ABORT_IF_CLOSED = False"

definition ms :: "int \<Rightarrow> int" where
  "ms n = n * 1000000"

definition minutes :: "int \<Rightarrow> int" where
  "minutes n = n * 60000000000"

text \<open>\<^verbatim>\<open>round(x, 2)\<close>: to the nearest hundredth, a tie going to the even neighbour.\<close>

definition round2 :: "rat \<Rightarrow> rat" where
  "round2 x =
     (let y = x * 100; f = \<lfloor>y\<rfloor>; d = y - of_int f
      in of_int (if d < 1 / 2 then f else if 1 / 2 < d then f + 1
                 else if even f then f else f + 1) / 100)"

text \<open>\<^verbatim>\<open>str.upper\<close> and \<^verbatim>\<open>str.lower\<close> on ASCII text: only the 26 letters move.\<close>

definition upper_char :: "char \<Rightarrow> char" where
  "upper_char c =
     (let n = (of_char c :: nat) in if 97 \<le> n \<and> n \<le> 122 then char_of (n - 32) else c)"

definition lower_char :: "char \<Rightarrow> char" where
  "lower_char c =
     (let n = (of_char c :: nat) in if 65 \<le> n \<and> n \<le> 90 then char_of (n + 32) else c)"

definition upper :: "string \<Rightarrow> string" where
  "upper s = map upper_char s"

definition lower :: "string \<Rightarrow> string" where
  "lower s = map lower_char s"


section \<open>Quote\<close>

text \<open>
  The class has the seven attributes its constructor sets. \<open>traded\<close> is the attribute that
  \<^verbatim>\<open>on_trade\<close> creates on a quote object by assignment (\<^verbatim>\<open>quote.traded = True\<close>);
  \<open>None\<close> says that the object has no such attribute.
\<close>

record Quote =
  symbol :: string
  bid :: rat
  ask :: rat
  bid_size :: rat
  ask_size :: rat
  timestamp :: int
  has_traded :: bool
  traded :: "bool option"

definition Quote_init :: "string \<Rightarrow> rat \<Rightarrow> rat \<Rightarrow> rat \<Rightarrow> rat \<Rightarrow> int \<Rightarrow> Quote" where
  "Quote_init sy b a bs as ts =
     \<lparr>Quote.symbol = sy, bid = b, ask = a, bid_size = bs, ask_size = as, Quote.timestamp = ts,
      has_traded = False, traded = None\<rparr>"

definition spread :: "Quote \<Rightarrow> rat" where
  "spread q = round2 (ask q - bid q)"


section \<open>Order\<close>

record Order =
  id' :: string
  symbol :: string
  side :: string
  quantity :: rat
  filled_quantity :: rat

definition Order_init :: "string \<Rightarrow> string \<Rightarrow> string \<Rightarrow> rat \<Rightarrow> Order" where
  "Order_init i sy sd q =
     \<lparr>id' = i, Order.symbol = upper sy, side = lower sd, quantity = q, filled_quantity = 0\<rparr>"

text \<open>
  An order-update notification: \<^verbatim>\<open>data.event\<close> and the entries of the \<^verbatim>\<open>data.order\<close>
  dictionary that the program reads, the numeric ones after \<^verbatim>\<open>float(...)\<close>.
\<close>

record Trade_update =
  event :: string
  order_id :: string
  order_symbol :: string
  order_side :: string
  order_qty :: rat
  order_filled_qty :: rat

definition Order_from_data :: "Trade_update \<Rightarrow> Order" where
  "Order_from_data data =
     Order_init (order_id data) (order_symbol data) (order_side data) (order_qty data)"

definition is_buy :: "Order \<Rightarrow> bool" where
  "is_buy order \<longleftrightarrow> side order = ''buy''"

definition is_sell :: "Order \<Rightarrow> bool" where
  "is_sell order \<longleftrightarrow> side order = ''sell''"

definition directional_quantity :: "Order \<Rightarrow> rat" where
  "directional_quantity order = quantity order * (if is_buy order then 1 else - 1)"

definition is_filled :: "Order \<Rightarrow> bool" where
  "is_filled order \<longleftrightarrow> quantity order = filled_quantity order"

definition pending :: "Order \<Rightarrow> rat" where
  "pending order = quantity order - filled_quantity order"


section \<open>Notifications, broker answers and effects\<close>

text \<open>A trade notification (\<open>size'\<close> is its \<^verbatim>\<open>size\<close>).\<close>

record Trade =
  symbol :: string
  price :: rat
  size' :: rat
  timestamp :: int

record Clock =
  is_open :: bool
  clock_timestamp :: int
  next_open :: int
  next_close :: int

datatype error = KeyError string | APIError int

text \<open>
  What the broker answers. \<open>get_clock\<close> and \<open>get_position\<close> give the result of the REST
  call or the \<^verbatim>\<open>APIError\<close> it raises (\<open>APIError code\<close>); \<open>submit_order\<close> is true when the
  submission returns and false when it raises. The arguments of \<open>submit_order\<close> are symbol,
  quantity, side and limit price.
\<close>

record Broker =
  get_clock :: "error + Clock"
  get_position :: "string \<Rightarrow> error + rat"
  submit_order :: "string \<Rightarrow> rat \<Rightarrow> string \<Rightarrow> rat \<Rightarrow> bool"

text \<open>What the program prints, one constructor for each \<^verbatim>\<open>print\<close> of the source.\<close>

datatype message =
    Creating_API
  | Markets_are_closed int int
  | Will_liquidate_positions_at int
  | Starting_connection_for "string list"
  | Position_data rat
  | Found_positions rat string
  | No_positions_found string int
  | Level_change Quote Quote
  | Ignoring_already_traded
  | Ignoring_too_recent
  | Ignoring_too_small
  | Current_quote Quote
  | Buy_at rat
  | Sell_at rat
  | Exception_text
  | Ask_Imbalance_Can_buy bool bool bool
  | Bid_Imbalance_Can_sell bool bool bool
  | Order_settled Order
  | Order_event string Order

text \<open>
  What the program does to the outside, in order. \<open>Submit_order\<close> carries symbol, quantity,
  side, type, time in force and limit price.
\<close>

datatype effect =
    Print message
  | REST_create
  | Call_get_clock
  | Call_get_position string
  | Submit_order string rat string string string rat
  | Stream_create
  | Subscribe_quotes "string list"
  | Subscribe_trades "string list"
  | Subscribe_trade_updates
  | Stream_run


section \<open>The strategy and the order registry\<close>

text \<open>
  The registry is the dictionary \<^verbatim>\<open>Runner.orders\<close>, in insertion order. An \<^verbatim>\<open>Order\<close>
  object lives in it, so a reference to an order is the key it is stored under: a handler
  that holds the object reads and writes the registry entry.
\<close>

type_synonym registry = "(string \<times> Order) list"

record Strategy =
  symbol :: string
  max_quantity :: int
  quantity_per_trade :: int
  current_quote :: Quote
  previous_quote :: Quote
  position :: rat
  level_changes :: int

text \<open>\<^verbatim>\<open>TickTakerStrategy.__init__\<close>; the two readings of the wall clock are arguments.\<close>

definition TickTakerStrategy_init :: "string \<Rightarrow> int \<Rightarrow> int \<Rightarrow> int \<Rightarrow> int \<Rightarrow> Strategy" where
  "TickTakerStrategy_init sy maxq per_trade now1 now2 =
     \<lparr>Strategy.symbol = sy, max_quantity = maxq, quantity_per_trade = per_trade,
      current_quote = Quote_init sy 0 0 0 0 now1,
      previous_quote = Quote_init sy 0 0 0 0 now2,
      position = 0, level_changes = 0\<rparr>"

text \<open>
  The property \<^verbatim>\<open>Strategy.orders\<close>: a new dictionary, keyed by \<^verbatim>\<open>order.id\<close>, of the
  registry's values whose symbol is the strategy's.
\<close>

definition Strategy_orders :: "Strategy \<Rightarrow> registry \<Rightarrow> registry" where
  "Strategy_orders s reg =
     foldl (\<lambda>acc order. AList.update (id' order) order acc) []
       (filter (\<lambda>order. Order.symbol order = Strategy.symbol s) (map snd reg))"

definition total_position :: "Strategy \<Rightarrow> registry \<Rightarrow> rat" where
  "total_position s reg =
     position s + sum_list (map directional_quantity (map snd (Strategy_orders s reg)))"

definition can_buy :: "Strategy \<Rightarrow> registry \<Rightarrow> bool" where
  "can_buy s reg \<longleftrightarrow> total_position s reg < of_int (max_quantity s)"

definition buyable_quantity :: "Strategy \<Rightarrow> registry \<Rightarrow> rat" where
  "buyable_quantity s reg =
     min (of_int (quantity_per_trade s)) (of_int (max_quantity s) - total_position s reg)"

definition can_sell :: "Strategy \<Rightarrow> registry \<Rightarrow> bool" where
  "can_sell s reg \<longleftrightarrow> 0 < total_position s reg"

definition sellable_quantity :: "Strategy \<Rightarrow> registry \<Rightarrow> rat" where
  "sellable_quantity s reg = min (of_int (quantity_per_trade s)) (total_position s reg)"

text \<open>
  \<^verbatim>\<open>TickTakerStrategy.start\<close>. The second component is the exception that leaves the
  method, if any.
\<close>

definition start :: "Broker \<Rightarrow> Strategy \<Rightarrow> (Strategy \<times> effect list) \<times> error option" where
  "start broker s =
     (case get_position broker (Strategy.symbol s) of
        Inr qty \<Rightarrow>
          ((s\<lparr>position := qty\<rparr>,
            [Call_get_position (Strategy.symbol s), Print (Position_data qty),
             Print (Found_positions qty (Strategy.symbol s))]), None)
      | Inl (APIError code) \<Rightarrow>
          (if code = 40410000
           then ((s\<lparr>position := 0\<rparr>,
                  [Call_get_position (Strategy.symbol s),
                   Print (No_positions_found (Strategy.symbol s) code)]), None)
           else ((s, [Call_get_position (Strategy.symbol s),
                      Print (No_positions_found (Strategy.symbol s) code)]),
                 Some (APIError code)))
      | Inl ex \<Rightarrow> ((s, [Call_get_position (Strategy.symbol s)]), Some ex))"

definition on_quote :: "Strategy \<Rightarrow> Quote \<Rightarrow> Strategy \<times> effect list" where
  "on_quote s quote =
     (if bid (current_quote s) \<noteq> bid quote
         \<and> ask (current_quote s) \<noteq> ask quote
         \<and> spread quote = 1 / 100
      then (s\<lparr>previous_quote := current_quote s, current_quote := quote,
               level_changes := level_changes s + 1\<rparr>,
            [Print (Level_change (current_quote s) quote)])
      else (s, []))"

text \<open>
  \<^verbatim>\<open>TickTakerStrategy.on_trade\<close>. The local \<^verbatim>\<open>quote\<close> is the object
  \<^verbatim>\<open>self.current_quote\<close>, so the assignment to \<^verbatim>\<open>quote.traded\<close> is an update of
  \<open>current_quote\<close>. An exception of the submission is caught and printed. (The Runner
  hands one \<^verbatim>\<open>Quote\<close> object to all its strategies; as nothing reads \<open>traded\<close>, a
  strategy that holds its own copy behaves the same.)
\<close>

definition on_trade :: "Broker \<Rightarrow> Strategy \<Rightarrow> registry \<Rightarrow> Trade \<Rightarrow> Strategy \<times> effect list" where
  "on_trade broker s reg data =
     (if Trade.symbol data \<noteq> Strategy.symbol s then (s, [])
      else if has_traded (current_quote s) then (s, [Print Ignoring_already_traded])
      else if Trade.timestamp data \<le> Quote.timestamp (current_quote s) + ms 50
        then (s, [Print Ignoring_too_recent])
      else if size' data < 100 then (s, [Print Ignoring_too_small])
      else
        let quote = current_quote s;
            (s1, out1) =
              (if price data = ask quote
                  \<and> ask_size quote * IMBALANCE_THRESHOLD < bid_size quote
                  \<and> can_buy s reg
               then
                 (s\<lparr>current_quote := quote\<lparr>traded := Some True\<rparr>\<rparr>,
                  Submit_order (Strategy.symbol s) (buyable_quantity s reg) ''buy''
                     ''limit'' ''ioc'' (ask quote)
                  # (if submit_order broker (Strategy.symbol s) (buyable_quantity s reg)
                          ''buy'' (ask quote)
                     then [Print (Buy_at (ask quote))] else [Print Exception_text]))
               else
                 (s, [Print (Ask_Imbalance_Can_buy (price data = ask quote)
                        (ask_size quote * IMBALANCE_THRESHOLD < bid_size quote)
                        (can_buy s reg))]));
            quote1 = current_quote s1;
            (s2, out2) =
              (if price data = bid quote1
                  \<and> bid_size quote1 * IMBALANCE_THRESHOLD < ask_size quote1
                  \<and> can_sell s1 reg
               then
                 (s1\<lparr>current_quote := quote1\<lparr>traded := Some True\<rparr>\<rparr>,
                  Submit_order (Strategy.symbol s1) (sellable_quantity s1 reg) ''sell''
                     ''limit'' ''ioc'' (bid quote1)
                  # (if submit_order broker (Strategy.symbol s1) (sellable_quantity s1 reg)
                          ''sell'' (bid quote1)
                     then [Print (Sell_at (bid quote1))] else [Print Exception_text]))
               else
                 (s1, [Print (Bid_Imbalance_Can_sell (price data = bid quote1)
                         (bid_size quote1 * IMBALANCE_THRESHOLD < ask_size quote1)
                         (can_sell s1 reg))]))
        in (s2, Print (Current_quote quote) # out1 @ out2))"

text \<open>
  \<^verbatim>\<open>on_order_settled\<close> and \<^verbatim>\<open>on_order_cancelled\<close>. The statement
  \<^verbatim>\<open>del self.runner.orders[order.id]\<close> raises \<^verbatim>\<open>KeyError\<close> when the key is not there; in
  \<^verbatim>\<open>on_order_settled\<close> the position has been changed by then. The result is the state
  reached and the exception, if any.
\<close>

definition on_order_settled ::
  "Strategy \<Rightarrow> registry \<Rightarrow> Order \<Rightarrow> (Strategy \<times> registry \<times> effect list) \<times> error option" where
  "on_order_settled s reg order =
     (let s' = s\<lparr>position := position s + directional_quantity order\<rparr>
      in if id' order \<in> fst ` set reg
         then ((s', AList.delete (id' order) reg, [Print (Order_settled order)]), None)
         else ((s', reg, [Print (Order_settled order)]), Some (KeyError (id' order))))"

definition on_order_cancelled ::
  "Strategy \<Rightarrow> registry \<Rightarrow> string \<Rightarrow> Order
     \<Rightarrow> (Strategy \<times> registry \<times> effect list) \<times> error option" where
  "on_order_cancelled s reg ev order =
     (if id' order \<in> fst ` set reg
      then ((s, AList.delete (id' order) reg, [Print (Order_event ev order)]), None)
      else ((s, reg, [Print (Order_event ev order)]), Some (KeyError (id' order))))"

text \<open>
  \<^verbatim>\<open>TickTakerStrategy.on_trade_updates(event, order, data)\<close>, with the order given by
  the key \<open>ref\<close> it is stored under. The only caller passes \<^verbatim>\<open>self.orders[order_id]\<close>;
  that lookup is the first case below, and it raises when the key is gone.
\<close>

definition on_trade_updates ::
  "Strategy \<Rightarrow> registry \<Rightarrow> string \<Rightarrow> string \<Rightarrow> Trade_update
     \<Rightarrow> (Strategy \<times> registry \<times> effect list) \<times> error option" where
  "on_trade_updates s reg ev ref data =
     (case map_of reg ref of
        None \<Rightarrow> ((s, reg, []), Some (KeyError ref))
      | Some order \<Rightarrow>
          if Order.symbol order \<noteq> Strategy.symbol s then ((s, reg, []), None)
          else
            let (order1, r1, raised1) =
              (if ev = ''fill'' \<or> ev = ''partial_fill''
               then
                 let order1 = order\<lparr>filled_quantity := order_filled_qty data\<rparr>;
                     reg1 = AList.update ref order1 reg
                 in if is_filled order1
                    then (order1, on_order_settled s reg1 order1)
                    else (order1, (s, reg1, []), None)
               else (order, (s, reg, []), None))
            in (case raised1 of
                  Some ex \<Rightarrow> (r1, Some ex)
                | None \<Rightarrow>
                    (case r1 of (s1, reg1, out1) \<Rightarrow>
                       if ev = ''canceled'' \<or> ev = ''rejected''
                       then (case on_order_cancelled s1 reg1 ev order1 of
                               ((s2, reg2, out2), raised2) \<Rightarrow>
                                 ((s2, reg2, out1 @ out2), raised2))
                       else ((s1, reg1, out1), None))))"


section \<open>Runner\<close>

text \<open>
  Of the Runner, the model has the strategies, the registry, \<^verbatim>\<open>add_strategy\<close>,
  \<^verbatim>\<open>start\<close> up to the blocking \<^verbatim>\<open>connection.run()\<close>, and the order-update callback.
  The quote and trade callbacks hand each notification to every strategy's \<^verbatim>\<open>on_quote\<close>
  and \<^verbatim>\<open>on_trade\<close>, which are modelled above; their liquidation check and
  \<^verbatim>\<open>stop\<close> are left out. The REST client, the stream and the liquidation time that
  \<^verbatim>\<open>start\<close> creates appear as effects.
\<close>

record Runner =
  strategies :: "Strategy list"
  orders :: registry

definition Runner_init :: Runner where
  "Runner_init = \<lparr>strategies = [], orders = []\<rparr>"

definition add_strategy :: "Runner \<Rightarrow> Strategy list \<Rightarrow> Runner" where
  "add_strategy r new = r\<lparr>strategies := strategies r @ new\<rparr>"

text \<open>The loop \<^verbatim>\<open>for strategy in self.strategies: strategy.start()\<close>.\<close>

fun start_all :: "Broker \<Rightarrow> Strategy list \<Rightarrow> (Strategy list \<times> effect list) \<times> error option" where
  "start_all broker [] = (([], []), None)"
| "start_all broker (s # ss) =
     (case start broker s of
        ((s', out), Some ex) \<Rightarrow> ((s' # ss, out), Some ex)
      | ((s', out), None) \<Rightarrow>
          (case start_all broker ss of
             ((ss', out'), raised) \<Rightarrow> ((s' # ss', out @ out'), raised)))"

text \<open>
  \<^verbatim>\<open>Runner.start\<close>. The module constant \<^verbatim>\<open>ABORT_IF_CLOSED\<close> is read when the method
  runs; it is the first argument here (the source file sets it to \<^const>\<open>ABORT_IF_CLOSED\<close>).
\<close>

definition Runner_start ::
  "bool \<Rightarrow> Broker \<Rightarrow> Runner \<Rightarrow> (Runner \<times> effect list) \<times> error option" where
  "Runner_start abort_if_closed broker r =
     (case get_clock broker of
        Inl ex \<Rightarrow> ((r, [Print Creating_API, REST_create, Call_get_clock]), Some ex)
      | Inr clock \<Rightarrow>
          if abort_if_closed \<and> is_open clock = False
          then ((r, [Print Creating_API, REST_create, Call_get_clock,
                     Print (Markets_are_closed (clock_timestamp clock) (next_open clock))]),
                None)
          else
            let liquidate_at = next_close clock - minutes 5;
                pre = [Print Creating_API, REST_create, Call_get_clock,
                       Print (Will_liquidate_positions_at liquidate_at)];
                symbols = map Strategy.symbol (strategies r)
            in (case start_all broker (strategies r) of
                  ((ss, out), Some ex) \<Rightarrow> ((r\<lparr>strategies := ss\<rparr>, pre @ out), Some ex)
                | ((ss, out), None) \<Rightarrow>
                    ((r\<lparr>strategies := ss\<rparr>,
                      pre @ out @
                      [Print (Starting_connection_for symbols), Stream_create,
                       Subscribe_quotes symbols, Subscribe_trades symbols,
                       Subscribe_trade_updates, Stream_run]), None)))"

text \<open>
  The handler \<^verbatim>\<open>on_trade_updates\<close> inside \<^verbatim>\<open>Runner.start\<close>: the order is created on the
  first notification that names its id, then every strategy is called in turn.
\<close>

fun dispatch_trade_updates ::
  "Strategy list \<Rightarrow> registry \<Rightarrow> Trade_update
     \<Rightarrow> (Strategy list \<times> registry \<times> effect list) \<times> error option" where
  "dispatch_trade_updates [] reg data = (([], reg, []), None)"
| "dispatch_trade_updates (s # ss) reg data =
     (case on_trade_updates s reg (event data) (order_id data) data of
        ((s', reg', out), Some ex) \<Rightarrow> ((s' # ss, reg', out), Some ex)
      | ((s', reg', out), None) \<Rightarrow>
          (case dispatch_trade_updates ss reg' data of
             ((ss', reg'', out'), raised) \<Rightarrow> ((s' # ss', reg'', out @ out'), raised)))"

definition Runner_on_trade_updates :: "Runner \<Rightarrow> Trade_update \<Rightarrow> (Runner \<times> effect list) \<times> error option" where
  "Runner_on_trade_updates r data =
     (let reg = (if order_id data \<notin> fst ` set (orders r)
                 then AList.update (order_id data) (Order_from_data data) (orders r)
                 else orders r)
      in (case dispatch_trade_updates (strategies r) reg data of
            ((ss, reg', out), raised) \<Rightarrow> ((r\<lparr>strategies := ss, orders := reg'\<rparr>, out), raised)))"


section \<open>Runs and example data\<close>

text \<open>A strategy fed a sequence of quotes, and the quotes of the sequence it accepts.\<close>

definition level_test :: "Strategy \<Rightarrow> Quote \<Rightarrow> bool" where
  "level_test s quote \<longleftrightarrow>
     bid quote \<noteq> bid (current_quote s) \<and> ask quote \<noteq> ask (current_quote s)
     \<and> spread quote = 1 / 100"

fun on_quotes :: "Strategy \<Rightarrow> Quote list \<Rightarrow> Strategy" where
  "on_quotes s [] = s"
| "on_quotes s (quote # quotes) = on_quotes (fst (on_quote s quote)) quotes"

fun accepted :: "Strategy \<Rightarrow> Quote list \<Rightarrow> Quote list" where
  "accepted s [] = []"
| "accepted s (quote # quotes) =
     (if level_test s quote then [quote] else []) @ accepted (fst (on_quote s quote)) quotes"

text \<open>What a list of effects holds.\<close>

fun is_evaluation :: "effect \<Rightarrow> bool" where
  "is_evaluation (Print (Current_quote q)) = True"
| "is_evaluation _ = False"

fun is_submission :: "effect \<Rightarrow> bool" where
  "is_submission (Submit_order sy q sd ty tif lp) = True"
| "is_submission _ = False"

fun is_subscription :: "effect \<Rightarrow> bool" where
  "is_subscription (Subscribe_quotes sys) = True"
| "is_subscription (Subscribe_trades sys) = True"
| "is_subscription Subscribe_trade_updates = True"
| "is_subscription Stream_create = True"
| "is_subscription Stream_run = True"
| "is_subscription _ = False"

fun position_queries :: "effect list \<Rightarrow> string list" where
  "position_queries [] = []"
| "position_queries (Call_get_position sy # out) = sy # position_queries out"
| "position_queries (_ # out) = position_queries out"

text \<open>
  A registry as the Runner builds it: every order is stored once, under its own id.
\<close>

definition registry_ok :: "registry \<Rightarrow> bool" where
  "registry_ok reg \<longleftrightarrow> distinct (map fst reg) \<and> list_all (\<lambda>(k, order). id' order = k) reg"

text \<open>Example data: a broker, a strategy for SNAP, and the first scenario of the design.\<close>

definition open_clock :: Clock where
  "open_clock = \<lparr>is_open = True, clock_timestamp = 0, next_open = minutes 1440,
                  next_close = minutes 390\<rparr>"

definition closed_clock :: Clock where
  "closed_clock = \<lparr>is_open = False, clock_timestamp = 0, next_open = minutes 60,
                    next_close = minutes 450\<rparr>"

definition flat_broker :: Broker where
  "flat_broker = \<lparr>get_clock = Inr open_clock,
                   get_position = (\<lambda>sy. Inl (APIError 40410000)),
                   submit_order = (\<lambda>sy q sd lp. True)\<rparr>"

definition snap :: Strategy where
  "snap = TickTakerStrategy_init ''SNAP'' 500 100 0 0"


text \<open>Quotes: a first level, a move of the ask alone, a second level, a wide book.\<close>

definition level1 :: Quote where
  "level1 = Quote_init ''SNAP'' 10 (1001 / 100) 500 100 (ms 1000)"

definition level1_ask_only :: Quote where
  "level1_ask_only = Quote_init ''SNAP'' 10 (1002 / 100) 500 100 (ms 1500)"

definition level2 :: Quote where
  "level2 = Quote_init ''SNAP'' (1001 / 100) (1002 / 100) 500 100 (ms 2000)"

definition wide_level :: Quote where
  "wide_level = Quote_init ''SNAP'' (1005 / 100) (1008 / 100) 500 100 (ms 2500)"


text \<open>
  Total exposure in the words of the specification's glossary: the confirmed position plus
  the signed pending quantity (requested minus filled, signed by side) of the live orders
  of the instrument. It is stated here to be compared with \<^const>\<open>total_position\<close>.
\<close>

definition signed_pending :: "Order \<Rightarrow> rat" where
  "signed_pending order = pending order * (if is_buy order then 1 else - 1)"

definition total_exposure_spec :: "Strategy \<Rightarrow> registry \<Rightarrow> rat" where
  "total_exposure_spec s reg =
     position s
     + sum_list (map signed_pending
         (filter (\<lambda>order. Order.symbol order = Strategy.symbol s) (map snd reg)))"

text \<open>
  The third scenario of the design: a buy order \<open>x1\<close> for 100 shares, first seen with a
  partial fill of 40, then filled.
\<close>

definition partial_fill_x1 :: Trade_update where
  "partial_fill_x1 =
     \<lparr>event = ''partial_fill'', order_id = ''x1'', order_symbol = ''SNAP'', order_side = ''buy'',
      order_qty = 100, order_filled_qty = 40\<rparr>"

definition fill_x1 :: Trade_update where
  "fill_x1 = partial_fill_x1\<lparr>event := ''fill'', order_filled_qty := 100\<rparr>"

definition runner_x1 :: Runner where
  "runner_x1 =
     fst (fst (Runner_on_trade_updates (add_strategy Runner_init [snap]) partial_fill_x1))"


text \<open>
  The first two scenarios of the design: the strategy at the level 10.00/10.01 with sizes
  500/100, a trade of 200 shares at the ask 100 ms after the quote, and a second such
  trade 10 ms later.
\<close>

definition at_level1 :: Strategy where
  "at_level1 = fst (on_quote snap level1)"

definition trade1 :: Trade where
  "trade1 = \<lparr>Trade.symbol = ''SNAP'', price = 1001 / 100, size' = 200, Trade.timestamp = ms 1100\<rparr>"

definition trade2 :: Trade where
  "trade2 = trade1\<lparr>Trade.timestamp := ms 1110\<rparr>"


text \<open>
  A run near the cap: the broker reports a position of 450 at start-up, a buy signal fires
  at the first level and another at the second level, and only then do the two orders'
  notifications arrive.
\<close>

definition near_cap :: Strategy where
  "near_cap = fst (fst (start (flat_broker\<lparr>get_position := (\<lambda>sy. Inr 450)\<rparr>) snap))"

definition near_cap1 :: Strategy where
  "near_cap1 = fst (on_quote near_cap level1)"

definition near_cap2 :: Strategy where
  "near_cap2 = fst (on_trade flat_broker near_cap1 [] trade1)"

definition near_cap3 :: Strategy where
  "near_cap3 = fst (on_quote near_cap2 level2)"

definition trade3 :: Trade where
  "trade3 = \<lparr>Trade.symbol = ''SNAP'', price = 1002 / 100, size' = 200, Trade.timestamp = ms 2100\<rparr>"

definition near_cap4 :: Strategy where
  "near_cap4 = fst (on_trade flat_broker near_cap3 [] trade3)"

definition new_o1 :: Trade_update where
  "new_o1 =
     \<lparr>event = ''new'', order_id = ''o1'', order_symbol = ''SNAP'', order_side = ''buy'',
      order_qty = 50, order_filled_qty = 0\<rparr>"

definition new_o2 :: Trade_update where
  "new_o2 = new_o1\<lparr>order_id := ''o2''\<rparr>"

definition runner_o1 :: Runner where
  "runner_o1 = fst (fst (Runner_on_trade_updates (add_strategy Runner_init [near_cap4]) new_o1))"

definition runner_o2 :: Runner where
  "runner_o2 = fst (fst (Runner_on_trade_updates runner_o1 new_o2))"

text \<open>Both orders are then filled.\<close>

definition fill_o1 :: Trade_update where
  "fill_o1 = new_o1\<lparr>event := ''fill'', order_filled_qty := 50\<rparr>"

definition fill_o2 :: Trade_update where
  "fill_o2 = new_o2\<lparr>event := ''fill'', order_filled_qty := 50\<rparr>"

definition runner_o3 :: Runner where
  "runner_o3 = fst (fst (Runner_on_trade_updates runner_o2 fill_o1))"

definition runner_o4 :: Runner where
  "runner_o4 = fst (fst (Runner_on_trade_updates runner_o3 fill_o2))"


definition cancel_x1 :: Trade_update where
  "cancel_x1 = partial_fill_x1\<lparr>event := ''canceled''\<rparr>"

definition uvxy :: Strategy where
  "uvxy = TickTakerStrategy_init ''UVXY'' 500 100 0 0"


text \<open>
  How an order may differ from what it was before an order update: the constructor's four
  fields are the same, and the filled quantity is the same or, for the order the update
  names on a fill or partial-fill event, the notified one.
\<close>

definition same_order :: "Trade_update \<Rightarrow> string \<Rightarrow> Order \<Rightarrow> Order \<Rightarrow> bool" where
  "same_order data k order order' \<longleftrightarrow>
     id' order' = id' order \<and> Order.symbol order' = Order.symbol order
     \<and> side order' = side order \<and> quantity order' = quantity order
     \<and> (filled_quantity order' = filled_quantity order
        \<or> k = order_id data \<and> (event data = ''fill'' \<or> event data = ''partial_fill'')
           \<and> filled_quantity order' = order_filled_qty data)"

definition stale_fill_x1 :: Trade_update where
  "stale_fill_x1 = partial_fill_x1\<lparr>order_filled_qty := 30\<rparr>"


text \<open>A broker whose position query fails with an error other than not-found.\<close>

definition failing_broker :: Broker where
  "failing_broker = flat_broker\<lparr>get_position := (\<lambda>sy. Inl (APIError 50010000))\<rparr>"

definition two_strategies :: Runner where
  "two_strategies = add_strategy Runner_init [snap, uvxy]"


text \<open>A strategy constructed with a symbol in lower case.\<close>

definition snap_lower :: Strategy where
  "snap_lower = TickTakerStrategy_init ''snap'' 500 100 0 0"

definition uppercase_symbols :: "registry \<Rightarrow> bool" where
  "uppercase_symbols reg \<longleftrightarrow> list_all (\<lambda>(k, order). upper (Order.symbol order) = Order.symbol order) reg"


text \<open>
  The conditions of the two \<^verbatim>\<open>if\<close> statements of \<^verbatim>\<open>on_trade\<close> that guard the buy and
  the sell submission, and the quote object after \<^verbatim>\<open>quote.traded = True\<close>.
\<close>

definition buy_signal :: "Strategy \<Rightarrow> registry \<Rightarrow> Trade \<Rightarrow> bool" where
  "buy_signal s reg data \<longleftrightarrow>
     price data = ask (current_quote s)
     \<and> ask_size (current_quote s) * IMBALANCE_THRESHOLD < bid_size (current_quote s)
     \<and> can_buy s reg"

definition sell_signal :: "Strategy \<Rightarrow> registry \<Rightarrow> Trade \<Rightarrow> bool" where
  "sell_signal s reg data \<longleftrightarrow>
     price data = bid (current_quote s)
     \<and> bid_size (current_quote s) * IMBALANCE_THRESHOLD < ask_size (current_quote s)
     \<and> can_sell s reg"

definition mark_traded :: "Strategy \<Rightarrow> Strategy" where
  "mark_traded s = s\<lparr>current_quote := (current_quote s)\<lparr>traded := Some True\<rparr>\<rparr>"

text \<open>
  A long strategy at a level where the offer is the heavy side, and a trade at the bid.
\<close>

definition level1_offered :: Quote where
  "level1_offered = Quote_init ''SNAP'' 10 (1001 / 100) 100 500 (ms 1000)"

definition long_at_level1 :: Strategy where
  "long_at_level1 =
     fst (on_quote (fst (fst (start (flat_broker\<lparr>get_position := (\<lambda>sy. Inr 450)\<rparr>) snap)))
            level1_offered)"

definition trade_at_bid :: Trade where
  "trade_at_bid = trade1\<lparr>price := 10\<rparr>"

definition trade_inside :: Trade where
  "trade_inside = trade1\<lparr>price := 10005 / 1000\<rparr>"


text \<open>
  Three strategies, a broker whose position query fails for UVXY only, and a broker whose
  clock query fails.
\<close>

definition three_strategies :: Runner where
  "three_strategies = add_strategy two_strategies [snap_lower]"

definition uvxy_failing_broker :: Broker where
  "uvxy_failing_broker =
     flat_broker\<lparr>get_position :=
       (\<lambda>sy. if sy = ''UVXY'' then Inl (APIError 50010000) else Inr 25)\<rparr>"

definition clockless_broker :: Broker where
  "clockless_broker = flat_broker\<lparr>get_clock := Inl (APIError 50010000)\<rparr>"


section \<open>Start-up of a strategy\<close>

text \<open>
  Claim C8. \<^verbatim>\<open>TickTakerStrategy.start\<close> sets the position to the quantity the broker
  reports when the position query succeeds; when the query fails with error code 40410000
  it sets the position to 0 and returns normally; any other error leaves the method again,
  the strategy as it was.
\<close>

theorem start_sets_position:
  "(get_position broker (Strategy.symbol s) = Inr qty \<longrightarrow>
      (\<exists>out. start broker s = ((s\<lparr>position := qty\<rparr>, out), None)))
   \<and> (get_position broker (Strategy.symbol s) = Inl (APIError 40410000) \<longrightarrow>
      (\<exists>out. start broker s = ((s\<lparr>position := 0\<rparr>, out), None)))
   \<and> (get_position broker (Strategy.symbol s) = Inl ex \<longrightarrow> ex \<noteq> APIError 40410000 \<longrightarrow>
      (\<exists>out. start broker s = ((s, out), Some ex)))"
  by (cases ex) (simp_all add: start_def)

theorem start_sets_position_witness:
  "position (fst (fst (start (flat_broker\<lparr>get_position := (\<lambda>sy. Inr 25)\<rparr>) snap))) = 25
   \<and> snd (start (flat_broker\<lparr>get_position := (\<lambda>sy. Inr 25)\<rparr>) snap) = None
   \<and> position (fst (fst (start flat_broker (snap\<lparr>position := 7\<rparr>)))) = 0
   \<and> snd (start flat_broker (snap\<lparr>position := 7\<rparr>)) = None
   \<and> fst (fst (start (flat_broker\<lparr>get_position := (\<lambda>sy. Inl (APIError 50010000))\<rparr>) snap)) = snap
   \<and> snd (start (flat_broker\<lparr>get_position := (\<lambda>sy. Inl (APIError 50010000))\<rparr>) snap)
       = Some (APIError 50010000)"
  using start_sets_position [of "flat_broker\<lparr>get_position := (\<lambda>sy. Inr 25)\<rparr>" snap 25 "KeyError []"]
    start_sets_position [of flat_broker "snap\<lparr>position := 7\<rparr>" 0 "KeyError []"]
    start_sets_position [of "flat_broker\<lparr>get_position := (\<lambda>sy. Inl (APIError 50010000))\<rparr>" snap 0
      "APIError 50010000"]
  by (auto simp add: flat_broker_def)


section \<open>Quote handling\<close>

lemma on_quote_rejected: "\<not> level_test s quote \<Longrightarrow> on_quote s quote = (s, [])"
  by (auto simp add: on_quote_def level_test_def)

lemma on_quote_accepted:
  "level_test s quote \<Longrightarrow>
     fst (on_quote s quote) =
       s\<lparr>previous_quote := current_quote s, current_quote := quote,
         level_changes := level_changes s + 1\<rparr>"
  by (auto simp add: on_quote_def level_test_def)

text \<open>
  Claim C5. After a sequence of quotes the current quote is the last quote of the sequence
  that passed the test (bid differs from the tracked bid, ask differs from the tracked ask,
  spread equal to 0.01), the tracked quote being the current one when the quote arrives;
  it is the starting quote when none passed. A quote that fails the test leaves the
  strategy as it is; a quote that passes becomes current, the old current quote becomes
  previous and \<open>level_changes\<close> grows by one.
\<close>

theorem level_change_determinism:
  "current_quote (on_quotes s quotes) = last (current_quote s # accepted s quotes)
   \<and> previous_quote (on_quotes s quotes)
       = last (butlast (previous_quote s # current_quote s # accepted s quotes))
   \<and> level_changes (on_quotes s quotes) = level_changes s + int (length (accepted s quotes))
   \<and> (\<not> level_test s quote \<longrightarrow> on_quote s quote = (s, []))
   \<and> (level_test s quote \<longrightarrow>
        fst (on_quote s quote) =
          s\<lparr>previous_quote := current_quote s, current_quote := quote,
            level_changes := level_changes s + 1\<rparr>)"
proof -
  have "current_quote (on_quotes s quotes) = last (current_quote s # accepted s quotes)
   \<and> previous_quote (on_quotes s quotes)
       = last (butlast (previous_quote s # current_quote s # accepted s quotes))
   \<and> level_changes (on_quotes s quotes) = level_changes s + int (length (accepted s quotes))"
  proof (induction quotes arbitrary: s)
    case Nil
    show ?case by simp
  next
    case (Cons quote quotes)
    show ?case
    proof (cases "level_test s quote")
      case True
      then show ?thesis
        using Cons.IH [of "fst (on_quote s quote)"] by (simp add: on_quote_accepted)
    next
      case False
      then show ?thesis
        using Cons.IH [of s] by (simp add: on_quote_rejected)
    qed
  qed
  then show ?thesis
    using on_quote_rejected [of s quote] on_quote_accepted [of s quote] by blast
qed

theorem level_change_determinism_witness:
  "current_quote (on_quotes snap [level1, level1_ask_only, level2, wide_level]) = level2
   \<and> previous_quote (on_quotes snap [level1, level1_ask_only, level2, wide_level]) = level1
   \<and> level_changes (on_quotes snap [level1, level1_ask_only, level2, wide_level]) = 2
   \<and> \<not> level_test (fst (on_quote snap level1)) level1_ask_only
   \<and> on_quote (fst (on_quote snap level1)) level1_ask_only = (fst (on_quote snap level1), [])
   \<and> level_test snap level1
   \<and> current_quote (fst (on_quote snap level1)) = level1
   \<and> previous_quote (fst (on_quote snap level1)) = current_quote snap
   \<and> level_changes (fst (on_quote snap level1)) = 1"
  using level_change_determinism [of snap "[level1, level1_ask_only, level2, wide_level]" level1]
    level_change_determinism [of "fst (on_quote snap level1)" "[]" level1_ask_only]
  by (simp add: level_test_def on_quote_def snap_def TickTakerStrategy_init_def level1_def
      level2_def level1_ask_only_def wide_level_def Quote_init_def spread_def round2_def Let_def)


section \<open>The registry and total exposure\<close>

lemma update_new_key: "k \<notin> fst ` set al \<Longrightarrow> AList.update k v al = al @ [(k, v)]"
  by (induction al) auto

lemma collect_by_id:
  "distinct (map fst acc @ map id' os) \<Longrightarrow>
     foldl (\<lambda>acc order. AList.update (id' order) order acc) acc os
       = acc @ map (\<lambda>order. (id' order, order)) os"
proof (induction os arbitrary: acc)
  case Nil
  show ?case by simp
next
  case (Cons order os)
  from Cons.prems have fresh: "id' order \<notin> fst ` set acc"
    by auto
  from Cons.prems have "distinct (map fst (acc @ [(id' order, order)]) @ map id' os)"
    by auto
  from Cons.IH [OF this] fresh show ?case
    by (simp add: update_new_key)
qed

lemma registry_ok_ids: "registry_ok reg \<Longrightarrow> map id' (map snd reg) = map fst reg"
  by (induction reg) (auto simp add: registry_ok_def)

lemma registry_ok_entries:
  "registry_ok reg \<Longrightarrow>
     map (\<lambda>order. (id' order, order)) (filter P (map snd reg))
       = filter (\<lambda>(k, order). P order) reg"
  by (induction reg) (auto simp add: registry_ok_def)

lemma registry_ok_update:
  "registry_ok reg \<Longrightarrow> id' order = k \<Longrightarrow> registry_ok (AList.update k order reg)"
  unfolding registry_ok_def
  by (rule conjI, simp add: distinct_update, induction reg, auto)

lemma registry_ok_delete: "registry_ok reg \<Longrightarrow> registry_ok (AList.delete k reg)"
  unfolding registry_ok_def
  by (rule conjI, simp add: distinct_delete, induction reg, auto)

lemma Strategy_orders_ok:
  assumes "registry_ok reg"
  shows "Strategy_orders s reg
           = filter (\<lambda>(k, order). Order.symbol order = Strategy.symbol s) reg"
proof -
  let ?P = "\<lambda>order. Order.symbol order = Strategy.symbol s"
  have "distinct (map fst reg)"
    using assms by (simp add: registry_ok_def)
  then have "distinct (map id' (map snd reg))"
    by (simp only: registry_ok_ids [OF assms])
  then have "distinct (map id' (filter ?P (map snd reg)))"
    by (rule distinct_map_filter)
  then have "Strategy_orders s reg = map (\<lambda>order. (id' order, order)) (filter ?P (map snd reg))"
    unfolding Strategy_orders_def using collect_by_id [of "[]" "filter ?P (map snd reg)"] by simp
  then show ?thesis
    using registry_ok_entries [OF assms, of ?P] by simp
qed

lemma total_position_ok:
  assumes "registry_ok reg"
  shows "total_position s reg =
     position s + sum_list (map directional_quantity
        (filter (\<lambda>order. Order.symbol order = Strategy.symbol s) (map snd reg)))"
proof -
  have "map snd (filter (\<lambda>(k, order). Order.symbol order = Strategy.symbol s) reg)
        = filter (\<lambda>order. Order.symbol order = Strategy.symbol s) (map snd reg)"
    by (induction reg) auto
  then show ?thesis
    by (simp add: total_position_def Strategy_orders_ok [OF assms])
qed

lemma refill_same_contribution:
  "map_of reg k = Some order \<Longrightarrow>
     map directional_quantity
       (filter (\<lambda>order. Order.symbol order = sy)
          (map snd (AList.update k (order\<lparr>filled_quantity := f\<rparr>) reg)))
     = map directional_quantity (filter (\<lambda>order. Order.symbol order = sy) (map snd reg))"
  by (induction reg) (auto simp add: directional_quantity_def is_buy_def)

text \<open>
  Claim C3, as the code has it. With every order stored once under its own id, the total
  exposure is the position plus the sum of \<open>directional_quantity\<close>, the whole requested
  quantity signed by side, over the registry's orders for the strategy's symbol. What an
  order has filled so far plays no part: writing another filled quantity into a live order
  leaves the total as it was.
\<close>

theorem total_position_full_quantity:
  assumes "registry_ok reg"
  shows "total_position s reg =
     position s + sum_list (map directional_quantity
        (filter (\<lambda>order. Order.symbol order = Strategy.symbol s) (map snd reg)))
    \<and> (map_of reg k = Some order \<longrightarrow>
         total_position s (AList.update k (order\<lparr>filled_quantity := f\<rparr>) reg)
           = total_position s reg)"
proof (intro conjI impI)
  show "total_position s reg =
     position s + sum_list (map directional_quantity
        (filter (\<lambda>order. Order.symbol order = Strategy.symbol s) (map snd reg)))"
    by (rule total_position_ok [OF assms])
next
  assume entry: "map_of reg k = Some order"
  then have "(k, order) \<in> set reg"
    by (rule map_of_SomeD)
  with assms have "id' order = k"
    by (auto simp add: registry_ok_def list_all_iff)
  then have "registry_ok (AList.update k (order\<lparr>filled_quantity := f\<rparr>) reg)"
    using assms by (simp add: registry_ok_update)
  then show "total_position s (AList.update k (order\<lparr>filled_quantity := f\<rparr>) reg)
           = total_position s reg"
    using assms entry by (simp add: total_position_ok refill_same_contribution)
qed

theorem total_position_full_quantity_witness:
  "registry_ok (orders runner_x1)
   \<and> map_of (orders runner_x1) ''x1''
       = Some ((Order_init ''x1'' ''SNAP'' ''buy'' 100)\<lparr>filled_quantity := 40\<rparr>)
   \<and> total_position snap (orders runner_x1) = 0 + sum_list [100]
   \<and> total_position snap
        (AList.update ''x1'' ((Order_init ''x1'' ''SNAP'' ''buy'' 100)\<lparr>filled_quantity := 70\<rparr>)
           (orders runner_x1)) = 100"
proof -
  have ok: "registry_ok (orders runner_x1)"
    by code_simp
  have entry: "map_of (orders runner_x1) ''x1''
       = Some ((Order_init ''x1'' ''SNAP'' ''buy'' 100)\<lparr>filled_quantity := 40\<rparr>)"
    by code_simp
  have total: "total_position snap (orders runner_x1) = 100"
    by code_simp
  from total_position_full_quantity [OF ok, of snap "''x1''"
      "(Order_init ''x1'' ''SNAP'' ''buy'' 100)\<lparr>filled_quantity := 40\<rparr>" 70] ok entry total
  show ?thesis by simp
qed

text \<open>
  Claim C3, as the specification words it, fails: with the one order \<open>x1\<close> (buy 100, 40
  filled) live and no position, the code's total is 100 and the total of position and
  signed pending quantities is 60.
\<close>

theorem total_position_pending_counterexample:
  "orders runner_x1 = [(''x1'', (Order_init ''x1'' ''SNAP'' ''buy'' 100)\<lparr>filled_quantity := 40\<rparr>)]
   \<and> total_position snap (orders runner_x1) = 100
   \<and> total_exposure_spec snap (orders runner_x1) = 60
   \<and> total_position snap (orders runner_x1) \<noteq> total_exposure_spec snap (orders runner_x1)"
  by code_simp


section \<open>Trade handling\<close>

lemma on_trade_evaluated:
  "list_ex is_evaluation (snd (on_trade broker s reg data)) \<longleftrightarrow>
     Trade.symbol data = Strategy.symbol s \<and> \<not> has_traded (current_quote s)
     \<and> Quote.timestamp (current_quote s) + ms 50 < Trade.timestamp data \<and> 100 \<le> size' data"
  by (auto simp add: on_trade_def Let_def split: prod.splits)

lemma on_trade_ignored:
  assumes "Trade.symbol data \<noteq> Strategy.symbol s \<or> has_traded (current_quote s)
     \<or> Trade.timestamp data \<le> Quote.timestamp (current_quote s) + ms 50 \<or> size' data < 100"
  shows "fst (on_trade broker s reg data) = s"
    and "\<not> list_ex is_submission (snd (on_trade broker s reg data))"
  using assms by (auto simp add: on_trade_def)

lemma on_trade_acted:
  assumes "Trade.symbol data = Strategy.symbol s" and "\<not> has_traded (current_quote s)"
    and "Quote.timestamp (current_quote s) + ms 50 < Trade.timestamp data"
    and "100 \<le> size' data"
  shows "on_trade broker s reg data =
     (if buy_signal s reg data \<or> sell_signal s reg data then mark_traded s else s,
      Print (Current_quote (current_quote s))
      # (if buy_signal s reg data
         then [Submit_order (Strategy.symbol s) (buyable_quantity s reg) ''buy'' ''limit'' ''ioc''
                 (ask (current_quote s)),
               Print (if submit_order broker (Strategy.symbol s) (buyable_quantity s reg) ''buy''
                         (ask (current_quote s))
                      then Buy_at (ask (current_quote s)) else Exception_text)]
         else [Print (Ask_Imbalance_Can_buy (price data = ask (current_quote s))
                 (ask_size (current_quote s) * IMBALANCE_THRESHOLD < bid_size (current_quote s))
                 (can_buy s reg))])
      @ (if sell_signal s reg data
         then [Submit_order (Strategy.symbol s) (sellable_quantity s reg) ''sell'' ''limit'' ''ioc''
                 (bid (current_quote s)),
               Print (if submit_order broker (Strategy.symbol s) (sellable_quantity s reg) ''sell''
                         (bid (current_quote s))
                      then Sell_at (bid (current_quote s)) else Exception_text)]
         else [Print (Bid_Imbalance_Can_sell (price data = bid (current_quote s))
                 (bid_size (current_quote s) * IMBALANCE_THRESHOLD < ask_size (current_quote s))
                 (can_sell s reg))]))"
proof -
  let ?q = "current_quote s"
  have guards: "(Trade.symbol data \<noteq> Strategy.symbol s) = False" "has_traded ?q = False"
    "(Trade.timestamp data \<le> Quote.timestamp ?q + ms 50) = False" "(size' data < 100) = False"
    using assms by simp_all
  have after: "can_sell (s\<lparr>current_quote := q\<rparr>) reg = can_sell s reg"
    "sellable_quantity (s\<lparr>current_quote := q\<rparr>) reg = sellable_quantity s reg" for q
    by (simp_all add: can_sell_def sellable_quantity_def total_position_def Strategy_orders_def)
  have buy: "(price data = ask ?q \<and> ask_size ?q * IMBALANCE_THRESHOLD < bid_size ?q
               \<and> can_buy s reg) = buy_signal s reg data"
    by (simp add: buy_signal_def)
  have sell: "(price data = bid ?q \<and> bid_size ?q * IMBALANCE_THRESHOLD < ask_size ?q
               \<and> can_sell s reg) = sell_signal s reg data"
    by (simp add: sell_signal_def)
  show ?thesis
    unfolding on_trade_def guards if_False Let_def buy
    by (cases "buy_signal s reg data"; cases "sell_signal s reg data";
        simp add: after sell mark_traded_def)
qed

text \<open>
  Claim C4. A trade reaches the signal evaluation exactly when its symbol is the
  strategy's, the current quote's \<open>has_traded\<close> is false, its timestamp is later than the
  current quote's plus 50 ms, and its size is at least 100; the handler then prints the
  current quote and runs the buy test and the sell test. Each of the four opposite
  conditions, alone, makes the handler return with the strategy unchanged and no order
  submitted. When none of them holds, the orders submitted are the buy order if the buy
  condition holds, followed by the sell order if the sell condition holds, and no other;
  a test that fails prints its three findings; the current quote gets the attribute
  \<open>traded\<close> if an order was submitted, and nothing else of the strategy changes.
\<close>

theorem trade_ignore_completeness:
  "(list_ex is_evaluation (snd (on_trade broker s reg data)) \<longleftrightarrow>
     Trade.symbol data = Strategy.symbol s \<and> \<not> has_traded (current_quote s)
     \<and> Quote.timestamp (current_quote s) + ms 50 < Trade.timestamp data \<and> 100 \<le> size' data)
   \<and> (Trade.symbol data \<noteq> Strategy.symbol s \<longrightarrow>
        fst (on_trade broker s reg data) = s
        \<and> \<not> list_ex is_submission (snd (on_trade broker s reg data)))
   \<and> (has_traded (current_quote s) \<longrightarrow>
        fst (on_trade broker s reg data) = s
        \<and> \<not> list_ex is_submission (snd (on_trade broker s reg data)))
   \<and> (Trade.timestamp data \<le> Quote.timestamp (current_quote s) + ms 50 \<longrightarrow>
        fst (on_trade broker s reg data) = s
        \<and> \<not> list_ex is_submission (snd (on_trade broker s reg data)))
   \<and> (size' data < 100 \<longrightarrow>
        fst (on_trade broker s reg data) = s
        \<and> \<not> list_ex is_submission (snd (on_trade broker s reg data)))
   \<and> (Trade.symbol data = Strategy.symbol s \<and> \<not> has_traded (current_quote s)
        \<and> Quote.timestamp (current_quote s) + ms 50 < Trade.timestamp data \<and> 100 \<le> size' data
        \<longrightarrow>
        hd (snd (on_trade broker s reg data)) = Print (Current_quote (current_quote s))
        \<and> filter is_submission (snd (on_trade broker s reg data)) =
            (if buy_signal s reg data
             then [Submit_order (Strategy.symbol s) (buyable_quantity s reg) ''buy'' ''limit''
                     ''ioc'' (ask (current_quote s))]
             else [])
            @ (if sell_signal s reg data
               then [Submit_order (Strategy.symbol s) (sellable_quantity s reg) ''sell'' ''limit''
                       ''ioc'' (bid (current_quote s))]
               else [])
        \<and> (\<not> buy_signal s reg data \<longrightarrow>
             Print (Ask_Imbalance_Can_buy (price data = ask (current_quote s))
                (ask_size (current_quote s) * IMBALANCE_THRESHOLD < bid_size (current_quote s))
                (can_buy s reg)) \<in> set (snd (on_trade broker s reg data)))
        \<and> (\<not> sell_signal s reg data \<longrightarrow>
             Print (Bid_Imbalance_Can_sell (price data = bid (current_quote s))
                (bid_size (current_quote s) * IMBALANCE_THRESHOLD < ask_size (current_quote s))
                (can_sell s reg)) \<in> set (snd (on_trade broker s reg data)))
        \<and> fst (on_trade broker s reg data) =
            (if buy_signal s reg data \<or> sell_signal s reg data then mark_traded s else s))"
proof -
  have acted: "hd (snd (on_trade broker s reg data)) = Print (Current_quote (current_quote s))
        \<and> filter is_submission (snd (on_trade broker s reg data)) =
            (if buy_signal s reg data
             then [Submit_order (Strategy.symbol s) (buyable_quantity s reg) ''buy'' ''limit''
                     ''ioc'' (ask (current_quote s))]
             else [])
            @ (if sell_signal s reg data
               then [Submit_order (Strategy.symbol s) (sellable_quantity s reg) ''sell'' ''limit''
                       ''ioc'' (bid (current_quote s))]
               else [])
        \<and> (\<not> buy_signal s reg data \<longrightarrow>
             Print (Ask_Imbalance_Can_buy (price data = ask (current_quote s))
                (ask_size (current_quote s) * IMBALANCE_THRESHOLD < bid_size (current_quote s))
                (can_buy s reg)) \<in> set (snd (on_trade broker s reg data)))
        \<and> (\<not> sell_signal s reg data \<longrightarrow>
             Print (Bid_Imbalance_Can_sell (price data = bid (current_quote s))
                (bid_size (current_quote s) * IMBALANCE_THRESHOLD < ask_size (current_quote s))
                (can_sell s reg)) \<in> set (snd (on_trade broker s reg data)))
        \<and> fst (on_trade broker s reg data) =
            (if buy_signal s reg data \<or> sell_signal s reg data then mark_traded s else s)"
    if "Trade.symbol data = Strategy.symbol s" "\<not> has_traded (current_quote s)"
      "Quote.timestamp (current_quote s) + ms 50 < Trade.timestamp data" "100 \<le> size' data"
    by (simp add: on_trade_acted [OF that])
  show ?thesis
    using on_trade_evaluated [of broker s reg data] on_trade_ignored [of data s broker reg] acted
    by blast
qed

theorem trade_ignore_completeness_witness:
  "list_ex is_evaluation (snd (on_trade flat_broker at_level1 [] trade1))
   \<and> Trade.symbol (trade1\<lparr>Trade.symbol := ''UVXY''\<rparr>) \<noteq> Strategy.symbol at_level1
   \<and> fst (on_trade flat_broker at_level1 [] (trade1\<lparr>Trade.symbol := ''UVXY''\<rparr>)) = at_level1
   \<and> has_traded (current_quote (at_level1\<lparr>current_quote := level1\<lparr>has_traded := True\<rparr>\<rparr>))
   \<and> fst (on_trade flat_broker (at_level1\<lparr>current_quote := level1\<lparr>has_traded := True\<rparr>\<rparr>) []
          trade1) = at_level1\<lparr>current_quote := level1\<lparr>has_traded := True\<rparr>\<rparr>
   \<and> Trade.timestamp (trade1\<lparr>Trade.timestamp := ms 1050\<rparr>)
        \<le> Quote.timestamp (current_quote at_level1) + ms 50
   \<and> fst (on_trade flat_broker at_level1 [] (trade1\<lparr>Trade.timestamp := ms 1050\<rparr>)) = at_level1
   \<and> size' (trade1\<lparr>size' := 99\<rparr>) < 100
   \<and> fst (on_trade flat_broker at_level1 [] (trade1\<lparr>size' := 99\<rparr>)) = at_level1
   \<and> buy_signal at_level1 [] trade1
   \<and> filter is_submission (snd (on_trade flat_broker at_level1 [] trade1))
       = [Submit_order ''SNAP'' 100 ''buy'' ''limit'' ''ioc'' (1001 / 100)]
   \<and> fst (on_trade flat_broker at_level1 [] trade1) = mark_traded at_level1
   \<and> sell_signal long_at_level1 [] trade_at_bid
   \<and> filter is_submission (snd (on_trade flat_broker long_at_level1 [] trade_at_bid))
       = [Submit_order ''SNAP'' 100 ''sell'' ''limit'' ''ioc'' 10]
   \<and> filter is_submission (snd (on_trade flat_broker at_level1 [] trade_inside)) = []
   \<and> Print (Ask_Imbalance_Can_buy False True True)
       \<in> set (snd (on_trade flat_broker at_level1 [] trade_inside))
   \<and> fst (on_trade flat_broker at_level1 [] trade_inside) = at_level1"
proof -
  have level: "current_quote at_level1 = level1" "Strategy.symbol at_level1 = ''SNAP''"
    by (simp_all add: at_level1_def on_quote_def snap_def TickTakerStrategy_init_def level1_def
        Quote_init_def spread_def round2_def Let_def)
  have quote: "Quote.timestamp level1 = ms 1000" "has_traded level1 = False"
    "ask level1 = 1001 / 100" "bid level1 = 10" "ask_size level1 = 100" "bid_size level1 = 500"
    by (simp_all add: level1_def Quote_init_def)
  have trade: "Trade.symbol trade1 = ''SNAP''" "Trade.timestamp trade1 = ms 1100"
    "size' trade1 = 200" "price trade1 = 1001 / 100"
    "Trade.symbol trade_inside = ''SNAP''" "Trade.timestamp trade_inside = ms 1100"
    "size' trade_inside = 200" "price trade_inside = 10005 / 1000"
    by (simp_all add: trade1_def trade_inside_def)
  have signals: "buy_signal at_level1 [] trade1" "\<not> sell_signal at_level1 [] trade1"
    "\<not> buy_signal at_level1 [] trade_inside" "\<not> sell_signal at_level1 [] trade_inside"
    "buyable_quantity at_level1 [] = 100" "can_buy at_level1 []"
    by code_simp+
  have long: "Trade.symbol trade_at_bid = Strategy.symbol long_at_level1"
    "\<not> has_traded (current_quote long_at_level1)"
    "Quote.timestamp (current_quote long_at_level1) + ms 50 < Trade.timestamp trade_at_bid"
    "100 \<le> size' trade_at_bid"
    "\<not> buy_signal long_at_level1 [] trade_at_bid" "sell_signal long_at_level1 [] trade_at_bid"
    "Strategy.symbol long_at_level1 = ''SNAP''" "sellable_quantity long_at_level1 [] = 100"
    "bid (current_quote long_at_level1) = 10"
    by code_simp+
  show ?thesis
    using trade_ignore_completeness [of flat_broker at_level1 "[]" trade1]
      trade_ignore_completeness [of flat_broker at_level1 "[]" "trade1\<lparr>Trade.symbol := ''UVXY''\<rparr>"]
      trade_ignore_completeness [of flat_broker
        "at_level1\<lparr>current_quote := level1\<lparr>has_traded := True\<rparr>\<rparr>" "[]" trade1]
      trade_ignore_completeness [of flat_broker at_level1 "[]"
        "trade1\<lparr>Trade.timestamp := ms 1050\<rparr>"]
      trade_ignore_completeness [of flat_broker at_level1 "[]" "trade1\<lparr>size' := 99\<rparr>"]
      trade_ignore_completeness [of flat_broker long_at_level1 "[]" trade_at_bid]
      trade_ignore_completeness [of flat_broker at_level1 "[]" trade_inside]
      signals long
    by (simp add: level quote trade ms_def IMBALANCE_THRESHOLD_def)
qed

text \<open>
  Claim C1 on the code. In the first scenario the buy signal fires and the order is
  submitted; afterwards the current quote has the new attribute \<open>traded\<close>, its
  \<open>has_traded\<close> is still false, and the second trade at the same level, 10 ms later,
  is evaluated and submits a second order.
\<close>

theorem has_traded_stays_false:
  "on_trade flat_broker at_level1 [] trade1 =
     (at_level1\<lparr>current_quote := level1\<lparr>traded := Some True\<rparr>\<rparr>,
      [Print (Current_quote level1),
       Submit_order ''SNAP'' 100 ''buy'' ''limit'' ''ioc'' (1001 / 100),
       Print (Buy_at (1001 / 100)),
       Print (Bid_Imbalance_Can_sell False False False)])
   \<and> has_traded (current_quote (fst (on_trade flat_broker at_level1 [] trade1))) = False
   \<and> snd (on_trade flat_broker (fst (on_trade flat_broker at_level1 [] trade1)) [] trade2) =
      [Print (Current_quote (level1\<lparr>traded := Some True\<rparr>)),
       Submit_order ''SNAP'' 100 ''buy'' ''limit'' ''ioc'' (1001 / 100),
       Print (Buy_at (1001 / 100)),
       Print (Bid_Imbalance_Can_sell False False False)]"
  by code_simp


section \<open>The exposure cap\<close>

lemma on_trade_buy:
  assumes "Submit_order sy q ''buy'' ty tif lp \<in> set (snd (on_trade broker s reg data))"
  shows "sy = Strategy.symbol s" and "q = buyable_quantity s reg" and "can_buy s reg"
  using assms by (auto simp add: on_trade_def Let_def split: if_splits prod.splits)

lemma on_trade_frame:
  "position (fst (on_trade broker s reg data)) = position s"
  "Strategy.symbol (fst (on_trade broker s reg data)) = Strategy.symbol s"
  "max_quantity (fst (on_trade broker s reg data)) = max_quantity s"
  by (auto simp add: on_trade_def Let_def split: if_splits prod.splits)

lemma total_position_frame:
  "position s' = position s \<Longrightarrow> Strategy.symbol s' = Strategy.symbol s \<Longrightarrow>
     total_position s' reg = total_position s reg"
  by (simp add: total_position_def Strategy_orders_def)

lemma registry_ok_append:
  "registry_ok reg \<Longrightarrow> k \<notin> fst ` set reg \<Longrightarrow> id' order = k \<Longrightarrow>
     registry_ok (reg @ [(k, order)])"
  by (auto simp add: registry_ok_def)

lemma total_position_append:
  assumes "registry_ok reg" "k \<notin> fst ` set reg" "id' order = k"
  shows "total_position s (reg @ [(k, order)]) =
     total_position s reg
     + (if Order.symbol order = Strategy.symbol s then directional_quantity order else 0)"
  using assms
  by (simp add: total_position_ok registry_ok_append)

lemma on_trade_updates_other_event:
  assumes "map_of reg ref = Some order"
    and "ev \<noteq> ''fill''" "ev \<noteq> ''partial_fill''" "ev \<noteq> ''canceled''" "ev \<noteq> ''rejected''"
  shows "on_trade_updates s reg ev ref data = ((s, reg, []), None)"
  using assms by (simp add: on_trade_updates_def)

lemma first_notification:
  assumes "order_id u \<notin> fst ` set reg"
    and "event u \<noteq> ''fill''" "event u \<noteq> ''partial_fill''"
    and "event u \<noteq> ''canceled''" "event u \<noteq> ''rejected''"
  shows "Runner_on_trade_updates \<lparr>strategies = [s], orders = reg\<rparr> u =
     ((\<lparr>strategies = [s], orders = reg @ [(order_id u, Order_from_data u)]\<rparr>, []), None)"
proof -
  let ?reg = "reg @ [(order_id u, Order_from_data u)]"
  have "map_of reg (order_id u) = None"
    using assms(1) by (simp add: map_of_eq_None_iff)
  then have "map_of ?reg (order_id u) = Some (Order_from_data u)"
    by (simp add: map_add_def)
  then have "on_trade_updates s ?reg (event u) (order_id u) u = ((s, ?reg, []), None)"
    using assms(2-5) by (rule on_trade_updates_other_event)
  then show ?thesis
    using assms(1) by (simp add: Runner_on_trade_updates_def update_new_key)
qed

text \<open>
  One buy on its own stays within the cap. When \<^verbatim>\<open>on_trade\<close> submits a buy of \<open>q\<close>
  shares, the total exposure it computed was below \<open>max_quantity\<close>, \<open>q\<close> is the smaller
  of \<open>quantity_per_trade\<close> and the headroom (so \<open>q\<close> is the headroom when
  \<open>quantity_per_trade\<close> exceeds it), and exposure plus \<open>q\<close> is at most
  \<open>max_quantity\<close>. The handler itself leaves the exposure as it was. For a Runner with
  this one strategy, when the next thing registered is a notification \<open>new\<close> for that
  order (a registry that stores each order once under its own id, an id not yet in it),
  the exposure becomes the old one plus \<open>q\<close> if the strategy's symbol is in upper case
  and stays as it was otherwise.
\<close>

lemma buy_within_headroom:
  assumes "Submit_order sy q ''buy'' ty tif lp \<in> set (snd (on_trade broker s reg data))"
  shows "total_position s reg < of_int (max_quantity s)
    \<and> q = min (of_int (quantity_per_trade s)) (of_int (max_quantity s) - total_position s reg)
    \<and> (of_int (max_quantity s) - total_position s reg < of_int (quantity_per_trade s) \<longrightarrow>
         q = of_int (max_quantity s) - total_position s reg)
    \<and> total_position s reg + q \<le> of_int (max_quantity s)
    \<and> total_position (fst (on_trade broker s reg data)) reg = total_position s reg
    \<and> (registry_ok reg \<longrightarrow> order_id u \<notin> fst ` set reg \<longrightarrow> event u = ''new'' \<longrightarrow>
         order_symbol u = sy \<longrightarrow> order_side u = ''buy'' \<longrightarrow> order_qty u = q \<longrightarrow>
         (\<exists>r'. Runner_on_trade_updates
                  \<lparr>strategies = [fst (on_trade broker s reg data)], orders = reg\<rparr> u
                = ((r', []), None)
            \<and> strategies r' = [fst (on_trade broker s reg data)]
            \<and> orders r' = reg @ [(order_id u, Order_from_data u)]
            \<and> total_position (fst (on_trade broker s reg data)) (orders r')
                = total_position s reg + (if upper sy = sy then q else 0)
            \<and> total_position (fst (on_trade broker s reg data)) (orders r')
                \<le> of_int (max_quantity s)))"
proof -
  let ?s' = "fst (on_trade broker s reg data)"
  have sy: "sy = Strategy.symbol s" and q: "q = buyable_quantity s reg" and below: "can_buy s reg"
    using on_trade_buy [OF assms] by simp_all
  have 1: "total_position s reg < of_int (max_quantity s)"
    using below by (simp add: can_buy_def)
  have 2: "q = min (of_int (quantity_per_trade s)) (of_int (max_quantity s) - total_position s reg)"
    using q by (simp add: buyable_quantity_def)
  have 3: "total_position s reg + q \<le> of_int (max_quantity s)"
    using 2 by simp
  have 4: "total_position ?s' reg' = total_position s reg'" for reg'
    by (rule total_position_frame) (simp_all add: on_trade_frame)
  have 5: "\<exists>r'. Runner_on_trade_updates \<lparr>strategies = [?s'], orders = reg\<rparr> u = ((r', []), None)
            \<and> strategies r' = [?s']
            \<and> orders r' = reg @ [(order_id u, Order_from_data u)]
            \<and> total_position ?s' (orders r') = total_position s reg + (if upper sy = sy then q else 0)
            \<and> total_position ?s' (orders r') \<le> of_int (max_quantity s)"
    if ok: "registry_ok reg" and fresh: "order_id u \<notin> fst ` set reg" and ev: "event u = ''new''"
      and u: "order_symbol u = sy" "order_side u = ''buy''" "order_qty u = q"
  proof -
    let ?order = "Order_from_data u"
    let ?r' = "\<lparr>strategies = [?s'], orders = reg @ [(order_id u, ?order)]\<rparr>"
    have run: "Runner_on_trade_updates \<lparr>strategies = [?s'], orders = reg\<rparr> u = ((?r', []), None)"
      using fresh ev by (simp add: first_notification)
    have "lower ''buy'' = ''buy''"
      by (simp add: lower_def lower_char_def)
    then have order: "id' ?order = order_id u" "Order.symbol ?order = upper sy"
      "directional_quantity ?order = q"
      using u
      by (simp_all add: Order_from_data_def Order_init_def directional_quantity_def is_buy_def)
    have total: "total_position ?s' (orders ?r')
        = total_position s reg + (if upper sy = sy then q else 0)"
      using total_position_append [OF ok fresh order(1), of s] order sy by (simp add: 4)
    have "total_position ?s' (orders ?r') \<le> of_int (max_quantity s)"
      using total 1 3 by (simp split: if_splits)
    with run total show ?thesis
      by (intro exI [of _ ?r']) simp
  qed
  from 1 2 3 4 [of reg] 5 show ?thesis
    by simp
qed

text \<open>
  Claim C2 on the code. The strategy is constructed with \<open>max_quantity\<close> 500 and the
  broker reports a position of 450. A buy of 50 is submitted at the first level. The order
  is not in the registry until its first notification, so at the second level the exposure
  is computed as 450 again and another buy of 50 is submitted. Once the notifications
  \<open>new\<close> of both orders have been registered the total exposure is 550, above
  \<open>max_quantity\<close>; once both orders are filled the registry is empty and the position
  is 550.
\<close>

theorem exposure_cap_exceeded:
  "max_quantity near_cap1 = 500 \<and> total_position near_cap1 [] = 450
   \<and> Submit_order ''SNAP'' 50 ''buy'' ''limit'' ''ioc'' (1001 / 100)
     \<in> set (snd (on_trade flat_broker near_cap1 [] trade1))
   \<and> total_position near_cap3 [] = 450
   \<and> Submit_order ''SNAP'' 50 ''buy'' ''limit'' ''ioc'' (1002 / 100)
     \<in> set (snd (on_trade flat_broker near_cap3 [] trade3))
   \<and> strategies runner_o2 = [near_cap4]
   \<and> map fst (orders runner_o2) = [''o1'', ''o2'']
   \<and> max_quantity near_cap4 = 500
   \<and> total_position near_cap4 (orders runner_o2) = 550
   \<and> \<not> total_position near_cap4 (orders runner_o2) \<le> of_int (max_quantity near_cap4)
   \<and> strategies runner_o4 = [near_cap4\<lparr>position := 550\<rparr>]
   \<and> orders runner_o4 = []"
  by code_simp


section \<open>Order updates\<close>

lemma stored_key: "map_of reg ref = Some order \<Longrightarrow> ref \<in> fst ` set reg"
  by (metis domI dom_map_of_conv_image_fst)

text \<open>
  Claim C6. The order is the registry entry under its own id. For an order of the
  strategy's symbol, a fill or partial-fill event writes the notified filled quantity into
  the order; if that equals the requested quantity, the order's \<open>directional_quantity\<close> is
  added to the position, once, and the entry is deleted, otherwise position and the other
  entries stay. A canceled or rejected event deletes the entry and leaves the position.
  For an order of another symbol nothing changes. After a deletion the id is no longer a
  key, and all other entries are as before.
\<close>

theorem order_update_handling:
  assumes "map_of reg ref = Some order" and "id' order = ref"
  shows "(Order.symbol order = Strategy.symbol s \<longrightarrow> ev = ''fill'' \<or> ev = ''partial_fill'' \<longrightarrow>
           order_filled_qty data = quantity order \<longrightarrow>
           on_trade_updates s reg ev ref data =
             ((s\<lparr>position := position s + directional_quantity order\<rparr>, AList.delete ref reg,
               [Print (Order_settled (order\<lparr>filled_quantity := order_filled_qty data\<rparr>))]),
              None))
    \<and> (Order.symbol order = Strategy.symbol s \<longrightarrow> ev = ''fill'' \<or> ev = ''partial_fill'' \<longrightarrow>
           order_filled_qty data \<noteq> quantity order \<longrightarrow>
           on_trade_updates s reg ev ref data =
             ((s, AList.update ref (order\<lparr>filled_quantity := order_filled_qty data\<rparr>) reg, []),
              None))
    \<and> (Order.symbol order = Strategy.symbol s \<longrightarrow> ev = ''canceled'' \<or> ev = ''rejected'' \<longrightarrow>
           on_trade_updates s reg ev ref data =
             ((s, AList.delete ref reg, [Print (Order_event ev order)]), None))
    \<and> (Order.symbol order \<noteq> Strategy.symbol s \<longrightarrow>
           on_trade_updates s reg ev ref data = ((s, reg, []), None))
    \<and> map_of (AList.delete ref reg) = (map_of reg)(ref := None)"
proof -
  have key: "ref \<in> fst ` set reg"
    using assms(1) by (rule stored_key)
  have settled: "on_trade_updates s reg ev ref data =
             ((s\<lparr>position := position s + directional_quantity order\<rparr>, AList.delete ref reg,
               [Print (Order_settled (order\<lparr>filled_quantity := order_filled_qty data\<rparr>))]),
              None)"
    if "Order.symbol order = Strategy.symbol s" "ev = ''fill'' \<or> ev = ''partial_fill''"
      "order_filled_qty data = quantity order"
    using that assms
    by (auto simp add: on_trade_updates_def on_order_settled_def is_filled_def Let_def
        directional_quantity_def is_buy_def dom_update delete_update_same)
  have partly: "on_trade_updates s reg ev ref data =
             ((s, AList.update ref (order\<lparr>filled_quantity := order_filled_qty data\<rparr>) reg, []),
              None)"
    if "Order.symbol order = Strategy.symbol s" "ev = ''fill'' \<or> ev = ''partial_fill''"
      "order_filled_qty data \<noteq> quantity order"
    using that assms
    by (auto simp add: on_trade_updates_def is_filled_def Let_def)
  have cancelled: "on_trade_updates s reg ev ref data =
             ((s, AList.delete ref reg, [Print (Order_event ev order)]), None)"
    if "Order.symbol order = Strategy.symbol s" "ev = ''canceled'' \<or> ev = ''rejected''"
    using that assms key
    by (auto simp add: on_trade_updates_def on_order_cancelled_def)
  have other: "on_trade_updates s reg ev ref data = ((s, reg, []), None)"
    if "Order.symbol order \<noteq> Strategy.symbol s"
    using that assms by (simp add: on_trade_updates_def)
  show ?thesis
    using settled partly cancelled other by (simp add: delete_conv')
qed

theorem order_update_handling_witness:
  "map_of (orders runner_x1) ''x1''
       = Some ((Order_init ''x1'' ''SNAP'' ''buy'' 100)\<lparr>filled_quantity := 40\<rparr>)
   \<and> on_trade_updates snap (orders runner_x1) ''fill'' ''x1'' fill_x1 =
       ((snap\<lparr>position := 100\<rparr>, [],
         [Print (Order_settled ((Order_init ''x1'' ''SNAP'' ''buy'' 100)\<lparr>filled_quantity := 100\<rparr>))]),
        None)
   \<and> on_trade_updates snap (orders runner_x1) ''partial_fill'' ''x1''
         (partial_fill_x1\<lparr>order_filled_qty := 70\<rparr>) =
       ((snap, [(''x1'', (Order_init ''x1'' ''SNAP'' ''buy'' 100)\<lparr>filled_quantity := 70\<rparr>)], []),
        None)
   \<and> on_trade_updates snap (orders runner_x1) ''canceled'' ''x1'' cancel_x1 =
       ((snap, [],
         [Print (Order_event ''canceled''
            ((Order_init ''x1'' ''SNAP'' ''buy'' 100)\<lparr>filled_quantity := 40\<rparr>))]), None)
   \<and> on_trade_updates uvxy (orders runner_x1) ''fill'' ''x1'' fill_x1
       = ((uvxy, orders runner_x1, []), None)"
proof -
  let ?order = "(Order_init ''x1'' ''SNAP'' ''buy'' 100)\<lparr>filled_quantity := 40\<rparr>"
  have registry: "orders runner_x1 = [(''x1'', ?order)]"
    by code_simp
  have entry: "map_of (orders runner_x1) ''x1'' = Some ?order"
    by (simp add: registry)
  have order: "id' ?order = ''x1''" "Order.symbol ?order = ''SNAP''" "quantity ?order = 100"
    "directional_quantity ?order = 100"
    by code_simp+
  have strategy: "Strategy.symbol snap = ''SNAP''" "Strategy.symbol uvxy = ''UVXY''"
    "position snap = 0"
    by (simp_all add: snap_def uvxy_def TickTakerStrategy_init_def)
  have data: "order_filled_qty fill_x1 = 100"
    "order_filled_qty (partial_fill_x1\<lparr>order_filled_qty := 70\<rparr>) = 70"
    by (simp_all add: fill_x1_def)
  show ?thesis
    using order_update_handling [OF entry order(1), of snap "''fill''" fill_x1]
      order_update_handling [OF entry order(1), of snap "''partial_fill''"
        "partial_fill_x1\<lparr>order_filled_qty := 70\<rparr>"]
      order_update_handling [OF entry order(1), of snap "''canceled''" cancel_x1]
      order_update_handling [OF entry order(1), of uvxy "''fill''" fill_x1]
    by (simp add: order strategy data registry)
qed


section \<open>Orders across updates\<close>

lemma same_order_refl: "same_order data k order order"
  by (simp add: same_order_def)

lemma same_order_trans:
  "same_order data k order order' \<Longrightarrow> same_order data k order' order''
     \<Longrightarrow> same_order data k order order''"
  by (auto simp add: same_order_def)

lemma on_order_settled_keeps:
  assumes "on_order_settled s reg order = ((s', reg', out), raised)"
    and "map_of reg' k = Some order'"
  shows "map_of reg k = Some order'"
  using assms
  by (auto simp add: on_order_settled_def Let_def delete_conv' split: if_splits)

lemma on_order_cancelled_keeps:
  assumes "on_order_cancelled s reg ev order = ((s', reg', out), raised)"
    and "map_of reg' k = Some order'"
  shows "map_of reg k = Some order'"
  using assms
  by (auto simp add: on_order_cancelled_def delete_conv' split: if_splits)

lemma on_trade_updates_keeps:
  assumes "on_trade_updates s reg (event data) (order_id data) data = ((s', reg', out), raised)"
    and "map_of reg' k = Some order'"
  shows "\<exists>order. map_of reg k = Some order \<and> same_order data k order order'"
proof (cases "map_of reg (order_id data)")
  case None
  with assms show ?thesis
    by (auto simp add: on_trade_updates_def same_order_refl)
next
  case (Some order)
  let ?order1 = "order\<lparr>filled_quantity := order_filled_qty data\<rparr>"
  let ?reg1 = "AList.update (order_id data) ?order1 reg"
  have written: "\<exists>order. map_of reg k = Some order \<and> same_order data k order order'"
    if "map_of ?reg1 k = Some order'" "event data = ''fill'' \<or> event data = ''partial_fill''"
    using that Some by (auto simp add: update_conv' same_order_def split: if_splits)
  show ?thesis
  proof (cases "Order.symbol order \<noteq> Strategy.symbol s")
    case True
    with assms Some show ?thesis
      by (auto simp add: on_trade_updates_def same_order_refl)
  next
    case symbol: False
    show ?thesis
    proof (cases "event data = ''fill'' \<or> event data = ''partial_fill''")
      case fill: True
      then have no_cancel: "\<not> (event data = ''canceled'' \<or> event data = ''rejected'')"
        by auto
      show ?thesis
      proof (cases "is_filled ?order1")
        case True
        obtain s1 reg1 out1 raised1 where
          settled: "on_order_settled s ?reg1 ?order1 = ((s1, reg1, out1), raised1)"
          by (metis prod_cases3 surj_pair)
        with assms(1) Some symbol fill True no_cancel have "reg' = reg1"
          by (auto simp add: on_trade_updates_def Let_def split: option.splits if_splits)
        with assms(2) settled have "map_of ?reg1 k = Some order'"
          by (auto dest: on_order_settled_keeps)
        then show ?thesis
          using fill by (rule written)
      next
        case False
        with assms(1) Some symbol fill no_cancel have "reg' = ?reg1"
          by (auto simp add: on_trade_updates_def Let_def split: option.splits if_splits)
        with assms(2) show ?thesis
          using fill by (auto intro: written)
      qed
    next
      case no_fill: False
      show ?thesis
      proof (cases "event data = ''canceled'' \<or> event data = ''rejected''")
        case True
        obtain s2 reg2 out2 raised2 where
          cancelled: "on_order_cancelled s reg (event data) order = ((s2, reg2, out2), raised2)"
          by (metis prod_cases3 surj_pair)
        with assms(1) Some symbol no_fill True have "reg' = reg2"
          by (auto simp add: on_trade_updates_def Let_def split: option.splits if_splits)
        with assms(2) cancelled have "map_of reg k = Some order'"
          by (auto dest: on_order_cancelled_keeps)
        then show ?thesis
          by (simp add: same_order_refl)
      next
        case False
        with assms Some symbol no_fill show ?thesis
          by (auto simp add: on_trade_updates_def same_order_refl)
      qed
    qed
  qed
qed

lemma dispatch_trade_updates_keeps:
  assumes "dispatch_trade_updates ss reg data = ((ss', reg', out), raised)"
    and "map_of reg' k = Some order'"
  shows "\<exists>order. map_of reg k = Some order \<and> same_order data k order order'"
  using assms
proof (induction ss arbitrary: reg ss' reg' out raised)
  case Nil
  then show ?case by (auto simp add: same_order_refl)
next
  case (Cons s ss)
  obtain s1 reg1 out1 raised1 where
    first: "on_trade_updates s reg (event data) (order_id data) data = ((s1, reg1, out1), raised1)"
    by (metis prod_cases3 surj_pair)
  show ?case
  proof (cases raised1)
    case (Some ex)
    with Cons.prems first have "reg' = reg1"
      by simp
    with Cons.prems(2) first show ?thesis
      by (auto dest: on_trade_updates_keeps)
  next
    case None
    obtain ss2 reg2 out2 raised2 where
      rest: "dispatch_trade_updates ss reg1 data = ((ss2, reg2, out2), raised2)"
      by (metis prod_cases3 surj_pair)
    with Cons.prems first None have "reg' = reg2"
      by simp
    with Cons.prems(2) rest obtain order1 where
      "map_of reg1 k = Some order1" "same_order data k order1 order'"
      using Cons.IH by blast
    moreover from this(1) first obtain order where
      "map_of reg k = Some order" "same_order data k order order1"
      using on_trade_updates_keeps by blast
    ultimately show ?thesis
      by (blast intro: same_order_trans)
  qed
qed

text \<open>
  Claim C7, as the code has it. Across one order update handled by the Runner, an order
  that is in the registry before and after keeps its id, symbol, side and quantity; its
  filled quantity is unchanged or, on a fill or partial-fill event that names it, becomes
  the notified filled quantity. So the filled quantity does not decrease when the notified
  one is not below it, and stays between 0 and the quantity when the notified one does. An
  order that appears is the one built from the notification, under the notified id, with
  filled quantity 0 or the notified one.
\<close>

theorem order_fields_fixed:
  assumes "Runner_on_trade_updates r data = ((r', out), raised)"
    and "map_of (orders r') k = Some order'"
  shows "(map_of (orders r) k = Some order \<longrightarrow>
           id' order' = id' order \<and> Order.symbol order' = Order.symbol order
           \<and> side order' = side order \<and> quantity order' = quantity order
           \<and> (filled_quantity order' = filled_quantity order
              \<or> k = order_id data \<and> (event data = ''fill'' \<or> event data = ''partial_fill'')
                 \<and> filled_quantity order' = order_filled_qty data)
           \<and> (filled_quantity order \<le> order_filled_qty data \<longrightarrow>
                filled_quantity order \<le> filled_quantity order')
           \<and> (0 \<le> filled_quantity order \<and> filled_quantity order \<le> quantity order
                \<and> 0 \<le> order_filled_qty data \<and> order_filled_qty data \<le> quantity order \<longrightarrow>
                0 \<le> filled_quantity order' \<and> filled_quantity order' \<le> quantity order'))
    \<and> (map_of (orders r) k = None \<longrightarrow>
           k = order_id data \<and> same_order data k (Order_from_data data) order'
           \<and> (0 \<le> order_filled_qty data \<and> order_filled_qty data \<le> order_qty data \<longrightarrow>
                0 \<le> filled_quantity order' \<and> filled_quantity order' \<le> quantity order'))"
proof -
  let ?reg1 = "if order_id data \<notin> fst ` set (orders r)
               then AList.update (order_id data) (Order_from_data data) (orders r)
               else orders r"
  obtain ss reg2 out2 raised2 where
    run: "dispatch_trade_updates (strategies r) ?reg1 data = ((ss, reg2, out2), raised2)"
    by (metis prod_cases3 surj_pair)
  with assms(1) have "orders r' = reg2"
    by (auto simp add: Runner_on_trade_updates_def Let_def)
  with assms(2) run obtain order1 where
    entry: "map_of ?reg1 k = Some order1" and same: "same_order data k order1 order'"
    using dispatch_trade_updates_keeps by blast
  have old: "same_order data k order order'" if "map_of (orders r) k = Some order"
  proof -
    from that have stored: "k \<in> fst ` set (orders r)"
      by (rule stored_key)
    have "map_of ?reg1 k = Some order"
    proof (cases "order_id data \<in> fst ` set (orders r)")
      case True
      with that show ?thesis by simp
    next
      case False
      with stored have "k \<noteq> order_id data"
        by blast
      with that False show ?thesis
        by (simp add: update_conv')
    qed
    with entry same show ?thesis
      by simp
  qed
  have new: "k = order_id data \<and> order1 = Order_from_data data" if "map_of (orders r) k = None"
    using that entry by (auto simp add: update_conv' split: if_splits)
  have fresh: "quantity (Order_from_data data) = order_qty data"
    "filled_quantity (Order_from_data data) = 0"
    by (simp_all add: Order_from_data_def Order_init_def)
  show ?thesis
  proof (intro conjI impI)
    assume "map_of (orders r) k = None"
    from new [OF this] same show "k = order_id data"
      and "same_order data k (Order_from_data data) order'"
      by simp_all
    then show "0 \<le> filled_quantity order'" and "filled_quantity order' \<le> quantity order'"
      if "0 \<le> order_filled_qty data \<and> order_filled_qty data \<le> order_qty data"
      using that fresh by (auto simp add: same_order_def)
  qed (use old in \<open>auto simp add: same_order_def\<close>)
qed

theorem order_fields_fixed_witness:
  "Runner_on_trade_updates runner_x1 (partial_fill_x1\<lparr>order_filled_qty := 70\<rparr>) =
     ((runner_x1\<lparr>orders :=
         [(''x1'', (Order_init ''x1'' ''SNAP'' ''buy'' 100)\<lparr>filled_quantity := 70\<rparr>)]\<rparr>, []), None)
   \<and> map_of (orders runner_x1) ''x1''
       = Some ((Order_init ''x1'' ''SNAP'' ''buy'' 100)\<lparr>filled_quantity := 40\<rparr>)
   \<and> (40 :: rat) \<le> order_filled_qty (partial_fill_x1\<lparr>order_filled_qty := 70\<rparr>)
   \<and> (40 :: rat) \<le> filled_quantity ((Order_init ''x1'' ''SNAP'' ''buy'' 100)\<lparr>filled_quantity := 70\<rparr>)
   \<and> Runner_on_trade_updates (add_strategy Runner_init [snap]) partial_fill_x1
       = ((runner_x1, []), None)
   \<and> map_of (orders (add_strategy Runner_init [snap])) ''x1'' = None
   \<and> ''x1'' = order_id partial_fill_x1"
proof -
  let ?order40 = "(Order_init ''x1'' ''SNAP'' ''buy'' 100)\<lparr>filled_quantity := 40\<rparr>"
  let ?order70 = "(Order_init ''x1'' ''SNAP'' ''buy'' 100)\<lparr>filled_quantity := 70\<rparr>"
  have step: "Runner_on_trade_updates runner_x1 (partial_fill_x1\<lparr>order_filled_qty := 70\<rparr>) =
     ((runner_x1\<lparr>orders := [(''x1'', ?order70)]\<rparr>, []), None)"
    by code_simp
  have after: "map_of (orders (runner_x1\<lparr>orders := [(''x1'', ?order70)]\<rparr>)) ''x1'' = Some ?order70"
    by simp
  have before: "map_of (orders runner_x1) ''x1'' = Some ?order40"
    by code_simp
  have first: "Runner_on_trade_updates (add_strategy Runner_init [snap]) partial_fill_x1
       = ((runner_x1, []), None)"
    by code_simp
  have none: "map_of (orders (add_strategy Runner_init [snap])) ''x1'' = None"
    by (simp add: add_strategy_def Runner_init_def)
  have numbers: "filled_quantity ?order40 = 40" "filled_quantity ?order70 = 70"
    "order_filled_qty (partial_fill_x1\<lparr>order_filled_qty := 70\<rparr>) = 70"
    by simp_all
  show ?thesis
    using order_fields_fixed [OF step after, of ?order40]
      order_fields_fixed [OF first before, of ?order40]
      step before first none numbers
    by (simp add: partial_fill_x1_def)
qed

text \<open>
  Claim C7, as the specification words it, fails: the handler writes whatever filled
  quantity the notification carries. With order \<open>x1\<close> at 40 filled, a partial-fill
  notification that reports 30 leaves it at 30.
\<close>

theorem filled_quantity_counterexample:
  "map_of (orders runner_x1) ''x1''
     = Some ((Order_init ''x1'' ''SNAP'' ''buy'' 100)\<lparr>filled_quantity := 40\<rparr>)
   \<and> Runner_on_trade_updates runner_x1 stale_fill_x1 =
     ((runner_x1\<lparr>orders :=
         [(''x1'', (Order_init ''x1'' ''SNAP'' ''buy'' 100)\<lparr>filled_quantity := 30\<rparr>)]\<rparr>, []), None)
   \<and> \<not> filled_quantity ((Order_init ''x1'' ''SNAP'' ''buy'' 100)\<lparr>filled_quantity := 40\<rparr>)
        \<le> filled_quantity ((Order_init ''x1'' ''SNAP'' ''buy'' 100)\<lparr>filled_quantity := 30\<rparr>)"
  by code_simp


section \<open>Start-up of the Runner\<close>

lemma start_effects:
  "position_queries (snd (fst (start broker s))) = [Strategy.symbol s]"
  "\<not> list_ex is_subscription (snd (fst (start broker s)))"
  by (auto simp add: start_def split: sum.splits error.splits)

lemma position_queries_append:
  "position_queries (out @ out') = position_queries out @ position_queries out'"
  by (induction out rule: position_queries.induct) simp_all

lemma start_all_quiet: "\<not> list_ex is_subscription (snd (fst (start_all broker ss)))"
proof (induction ss)
  case Nil
  show ?case by simp
next
  case (Cons s ss)
  then show ?case
    using start_effects(2) [of broker s]
    by (auto split: prod.splits option.splits)
qed

lemma start_all_succeeds:
  assumes "\<forall>s \<in> set ss. snd (start broker s) = None"
  shows "fst (fst (start_all broker ss)) = map (\<lambda>s. fst (fst (start broker s))) ss"
    and "position_queries (snd (fst (start_all broker ss))) = map Strategy.symbol ss"
    and "snd (start_all broker ss) = None"
  using assms
proof (induction ss)
  case Nil
  {
    case 1 show ?case by simp
  next
    case 2 show ?case by simp
  next
    case 3 show ?case by simp
  }
next
  case (Cons s ss)
  {
    case 1
    with Cons.IH(1) show ?case
      by (auto split: prod.splits option.splits)
  next
    case 2
    with Cons.IH(2) start_effects(1) [of broker s] show ?case
      by (auto simp add: position_queries_append split: prod.splits option.splits)
  next
    case 3
    with Cons.IH(3) show ?case
      by (auto split: prod.splits option.splits)
  }
qed

lemma start_all_fails:
  assumes "\<exists>s \<in> set ss. snd (start broker s) \<noteq> None"
  shows "snd (start_all broker ss) \<noteq> None"
  using assms
proof (induction ss)
  case Nil
  then show ?case by simp
next
  case (Cons s ss)
  then show ?case
    by (cases "snd (start broker s)") (auto split: prod.splits option.splits)
qed

lemma start_raises_unchanged:
  "snd (start broker s) = Some ex \<Longrightarrow> fst (fst (start broker s)) = s"
  by (auto simp add: start_def split: sum.splits error.splits if_splits)

lemma start_all_prefix:
  assumes "\<forall>t \<in> set ss1. snd (start broker t) = None"
  shows "fst (fst (start_all broker (ss1 @ rest)))
           = map (\<lambda>t. fst (fst (start broker t))) ss1 @ fst (fst (start_all broker rest))"
    and "position_queries (snd (fst (start_all broker (ss1 @ rest))))
           = map Strategy.symbol ss1 @ position_queries (snd (fst (start_all broker rest)))"
    and "snd (start_all broker (ss1 @ rest)) = snd (start_all broker rest)"
  using assms
proof (induction ss1)
  case Nil
  {
    case 1 show ?case by simp
  next
    case 2 show ?case by simp
  next
    case 3 show ?case by simp
  }
next
  case (Cons t ss1)
  {
    case 1
    with Cons.IH(1) show ?case
      by (auto split: prod.splits option.splits)
  next
    case 2
    with Cons.IH(2) start_effects(1) [of broker t] show ?case
      by (auto simp add: position_queries_append split: prod.splits option.splits)
  next
    case 3
    with Cons.IH(3) show ?case
      by (auto split: prod.splits option.splits)
  }
qed

lemma start_all_first_failure:
  assumes "\<forall>t \<in> set ss1. snd (start broker t) = None" and "snd (start broker s) = Some ex"
  shows "fst (fst (start_all broker (ss1 @ s # ss2)))
           = map (\<lambda>t. fst (fst (start broker t))) ss1 @ s # ss2"
    and "position_queries (snd (fst (start_all broker (ss1 @ s # ss2))))
           = map Strategy.symbol (ss1 @ [s])"
    and "snd (start_all broker (ss1 @ s # ss2)) = Some ex"
proof -
  have stop: "start_all broker (s # ss2) = ((s # ss2, snd (fst (start broker s))), Some ex)"
    using assms(2) start_raises_unchanged [OF assms(2)]
    by (auto split: prod.splits option.splits)
  show "fst (fst (start_all broker (ss1 @ s # ss2)))
           = map (\<lambda>t. fst (fst (start broker t))) ss1 @ s # ss2"
    using start_all_prefix(1) [OF assms(1), of "s # ss2"] stop by simp
  show "position_queries (snd (fst (start_all broker (ss1 @ s # ss2))))
           = map Strategy.symbol (ss1 @ [s])"
    using start_all_prefix(2) [OF assms(1), of "s # ss2"] stop start_effects(1) [of broker s]
    by simp
  show "snd (start_all broker (ss1 @ s # ss2)) = Some ex"
    using start_all_prefix(3) [OF assms(1), of "s # ss2"] stop by simp
qed

text \<open>
  Claim C9, as the code has it. If the clock query raises, \<^verbatim>\<open>Runner.start\<close> raises that
  error with the Runner unchanged, no strategy started and nothing subscribed. If the clock
  query succeeds, the abort toggle is set and the market is closed, \<^verbatim>\<open>Runner.start\<close>
  returns normally with the Runner unchanged, no position query (so no strategy started)
  and no stream created, subscribed or run. Otherwise the strategies are started in order.
  If every \<^verbatim>\<open>start\<close> returns normally, every strategy has been started, the three
  subscriptions are made and the stream is run. If a strategy's \<^verbatim>\<open>start\<close> raises, the
  strategies before it having started normally, \<^verbatim>\<open>Runner.start\<close> raises that strategy's
  error: the strategies before it are started, it is left as it was, the strategies after
  it are not started (no position query is made for them and they are unchanged), and
  nothing is subscribed.
\<close>

theorem Runner_start_gate:
  "(get_clock broker = Inl ex \<longrightarrow>
      (\<exists>out. Runner_start abort broker r = ((r, out), Some ex)
         \<and> position_queries out = [] \<and> \<not> list_ex is_subscription out))
   \<and> (get_clock broker = Inr clock \<longrightarrow> abort \<and> \<not> is_open clock \<longrightarrow>
      (\<exists>out. Runner_start abort broker r = ((r, out), None)
         \<and> position_queries out = [] \<and> \<not> list_ex is_subscription out))
   \<and> (get_clock broker = Inr clock \<longrightarrow> \<not> (abort \<and> \<not> is_open clock) \<longrightarrow>
      (\<forall>s \<in> set (strategies r). snd (start broker s) = None) \<longrightarrow>
      (\<exists>out. Runner_start abort broker r =
           ((r\<lparr>strategies := map (\<lambda>s. fst (fst (start broker s))) (strategies r)\<rparr>, out), None)
         \<and> position_queries out = map Strategy.symbol (strategies r)
         \<and> Subscribe_quotes (map Strategy.symbol (strategies r)) \<in> set out
         \<and> Subscribe_trades (map Strategy.symbol (strategies r)) \<in> set out
         \<and> Subscribe_trade_updates \<in> set out \<and> Stream_run \<in> set out))
   \<and> (get_clock broker = Inr clock \<longrightarrow> \<not> (abort \<and> \<not> is_open clock) \<longrightarrow>
      strategies r = ss1 @ s # ss2 \<longrightarrow>
      (\<forall>t \<in> set ss1. snd (start broker t) = None) \<longrightarrow> snd (start broker s) = Some ex' \<longrightarrow>
      (\<exists>out. Runner_start abort broker r =
           ((r\<lparr>strategies := map (\<lambda>t. fst (fst (start broker t))) ss1 @ s # ss2\<rparr>, out),
            Some ex')
         \<and> position_queries out = map Strategy.symbol (ss1 @ [s])
         \<and> \<not> list_ex is_subscription out))"
proof (intro conjI impI)
  assume "get_clock broker = Inl ex"
  then show "\<exists>out. Runner_start abort broker r = ((r, out), Some ex)
         \<and> position_queries out = [] \<and> \<not> list_ex is_subscription out"
    by (simp add: Runner_start_def)
next
  assume "get_clock broker = Inr clock" "abort \<and> \<not> is_open clock"
  then show "\<exists>out. Runner_start abort broker r = ((r, out), None)
             \<and> position_queries out = [] \<and> \<not> list_ex is_subscription out"
    by (simp add: Runner_start_def)
next
  assume clock: "get_clock broker = Inr clock" and go: "\<not> (abort \<and> \<not> is_open clock)"
    and "\<forall>s \<in> set (strategies r). snd (start broker s) = None"
  obtain ss out raised where all: "start_all broker (strategies r) = ((ss, out), raised)"
    by (metis surj_pair)
  from start_all_succeeds [OF \<open>\<forall>s \<in> set (strategies r). snd (start broker s) = None\<close>] all
  have "ss = map (\<lambda>s. fst (fst (start broker s))) (strategies r)"
    and "position_queries out = map Strategy.symbol (strategies r)" and "raised = None"
    by simp_all
  with clock go all
  show "\<exists>out. Runner_start abort broker r =
           ((r\<lparr>strategies := map (\<lambda>s. fst (fst (start broker s))) (strategies r)\<rparr>, out), None)
         \<and> position_queries out = map Strategy.symbol (strategies r)
         \<and> Subscribe_quotes (map Strategy.symbol (strategies r)) \<in> set out
         \<and> Subscribe_trades (map Strategy.symbol (strategies r)) \<in> set out
         \<and> Subscribe_trade_updates \<in> set out \<and> Stream_run \<in> set out"
    by (auto simp add: Runner_start_def Let_def position_queries_append)
next
  assume clock: "get_clock broker = Inr clock" and go: "\<not> (abort \<and> \<not> is_open clock)"
    and split: "strategies r = ss1 @ s # ss2"
    and before: "\<forall>t \<in> set ss1. snd (start broker t) = None"
    and fails: "snd (start broker s) = Some ex'"
  obtain ss out raised where all: "start_all broker (strategies r) = ((ss, out), raised)"
    by (metis surj_pair)
  have quiet: "\<not> list_ex is_subscription out"
    using start_all_quiet [of broker "strategies r"] all by simp
  from start_all_first_failure [OF before fails, of ss2] all split
  have "ss = map (\<lambda>t. fst (fst (start broker t))) ss1 @ s # ss2"
    and "position_queries out = map Strategy.symbol (ss1 @ [s])" and "raised = Some ex'"
    by simp_all
  with clock go all quiet
  show "\<exists>out. Runner_start abort broker r =
           ((r\<lparr>strategies := map (\<lambda>t. fst (fst (start broker t))) ss1 @ s # ss2\<rparr>, out),
            Some ex')
         \<and> position_queries out = map Strategy.symbol (ss1 @ [s])
         \<and> \<not> list_ex is_subscription out"
    by (auto simp add: Runner_start_def Let_def position_queries_append)
qed

theorem Runner_start_gate_witness:
  "get_clock clockless_broker = Inl (APIError 50010000)
   \<and> Runner_start ABORT_IF_CLOSED clockless_broker two_strategies
       = ((two_strategies, [Print Creating_API, REST_create, Call_get_clock]),
          Some (APIError 50010000))
   \<and> get_clock (flat_broker\<lparr>get_clock := Inr closed_clock\<rparr>) = Inr closed_clock
   \<and> \<not> is_open closed_clock
   \<and> fst (fst (Runner_start True (flat_broker\<lparr>get_clock := Inr closed_clock\<rparr>) two_strategies))
       = two_strategies
   \<and> snd (Runner_start True (flat_broker\<lparr>get_clock := Inr closed_clock\<rparr>) two_strategies) = None
   \<and> position_queries
        (snd (fst (Runner_start True (flat_broker\<lparr>get_clock := Inr closed_clock\<rparr>)
           two_strategies))) = []
   \<and> get_clock flat_broker = Inr open_clock
   \<and> strategies two_strategies = [snap, uvxy]
   \<and> snd (start flat_broker snap) = None \<and> snd (start flat_broker uvxy) = None
   \<and> snd (Runner_start ABORT_IF_CLOSED flat_broker two_strategies) = None
   \<and> position_queries (snd (fst (Runner_start ABORT_IF_CLOSED flat_broker two_strategies)))
       = [''SNAP'', ''UVXY'']
   \<and> Subscribe_trade_updates
       \<in> set (snd (fst (Runner_start ABORT_IF_CLOSED flat_broker two_strategies)))
   \<and> get_clock uvxy_failing_broker = Inr open_clock
   \<and> strategies three_strategies = [snap] @ uvxy # [snap_lower]
   \<and> snd (start uvxy_failing_broker snap) = None
   \<and> snd (start uvxy_failing_broker uvxy) = Some (APIError 50010000)
   \<and> snd (Runner_start ABORT_IF_CLOSED uvxy_failing_broker three_strategies)
       = Some (APIError 50010000)
   \<and> strategies (fst (fst (Runner_start ABORT_IF_CLOSED uvxy_failing_broker three_strategies)))
       = [snap\<lparr>position := 25\<rparr>, uvxy, snap_lower]
   \<and> position_queries
        (snd (fst (Runner_start ABORT_IF_CLOSED uvxy_failing_broker three_strategies)))
       = [''SNAP'', ''UVXY'']"
proof -
  have clocks: "get_clock clockless_broker = Inl (APIError 50010000)"
    "get_clock (flat_broker\<lparr>get_clock := Inr closed_clock\<rparr>) = Inr closed_clock"
    "get_clock flat_broker = Inr open_clock" "get_clock uvxy_failing_broker = Inr open_clock"
    "\<not> is_open closed_clock" "is_open open_clock" "\<not> ABORT_IF_CLOSED"
    by (simp_all add: flat_broker_def clockless_broker_def uvxy_failing_broker_def
        closed_clock_def open_clock_def ABORT_IF_CLOSED_def)
  have attached: "strategies two_strategies = [snap, uvxy]"
    "strategies three_strategies = [snap] @ uvxy # [snap_lower]"
    "Strategy.symbol snap = ''SNAP''" "Strategy.symbol uvxy = ''UVXY''"
    by (simp_all add: three_strategies_def two_strategies_def add_strategy_def Runner_init_def
        snap_def uvxy_def TickTakerStrategy_init_def)
  have starts: "snd (start flat_broker snap) = None" "snd (start flat_broker uvxy) = None"
    "snd (start uvxy_failing_broker snap) = None"
    "snd (start uvxy_failing_broker uvxy) = Some (APIError 50010000)"
    "fst (fst (start uvxy_failing_broker snap)) = snap\<lparr>position := 25\<rparr>"
    by code_simp+
  have first: "Runner_start ABORT_IF_CLOSED clockless_broker two_strategies
       = ((two_strategies, [Print Creating_API, REST_create, Call_get_clock]),
          Some (APIError 50010000))"
    using Runner_start_gate [of clockless_broker "APIError 50010000" ABORT_IF_CLOSED
        two_strategies open_clock "[]" snap "[]" "APIError 0"] clocks(1)
    by (auto simp add: Runner_start_def)
  show ?thesis
    using first
      Runner_start_gate [of "flat_broker\<lparr>get_clock := Inr closed_clock\<rparr>" "APIError 0" True
        two_strategies closed_clock "[]" snap "[]" "APIError 0"]
      Runner_start_gate [of flat_broker "APIError 0" ABORT_IF_CLOSED two_strategies open_clock
        "[]" snap "[]" "APIError 0"]
      Runner_start_gate [of uvxy_failing_broker "APIError 0" ABORT_IF_CLOSED three_strategies
        open_clock "[snap]" uvxy "[snap_lower]" "APIError 50010000"]
      clocks attached starts
    by auto
qed

text \<open>
  Claim C9, as the specification words it, fails in its second half. With the toggle as
  the source sets it and the market open, a position query that fails with another error
  than not-found for the first strategy makes \<^verbatim>\<open>Runner.start\<close> raise: the second
  strategy is never started and nothing is subscribed.
\<close>

theorem Runner_start_counterexample:
  "get_clock failing_broker = Inr open_clock
   \<and> \<not> (ABORT_IF_CLOSED \<and> \<not> is_open open_clock)
   \<and> map Strategy.symbol (strategies two_strategies) = [''SNAP'', ''UVXY'']
   \<and> snd (Runner_start ABORT_IF_CLOSED failing_broker two_strategies) = Some (APIError 50010000)
   \<and> position_queries (snd (fst (Runner_start ABORT_IF_CLOSED failing_broker two_strategies)))
       = [''SNAP'']
   \<and> \<not> list_ex is_subscription
         (snd (fst (Runner_start ABORT_IF_CLOSED failing_broker two_strategies)))"
  by code_simp


section \<open>Symbols of orders and strategies\<close>

lemma upper_char_idem: "upper_char (upper_char c) = upper_char c"
proof (cases "97 \<le> (of_char c :: nat) \<and> (of_char c :: nat) \<le> 122")
  case True
  then have "(of_char c - 32 :: nat) < 256"
    by arith
  then have "(of_char (char_of (of_char c - 32 :: nat)) :: nat) = of_char c - 32"
    by simp
  moreover from True have "\<not> 97 \<le> (of_char c :: nat) - 32"
    by arith
  ultimately show ?thesis
    using True by (simp add: upper_char_def Let_def)
next
  case False
  then have "upper_char c = c"
    by (auto simp add: upper_char_def Let_def)
  then show ?thesis
    by simp
qed

lemma upper_idem: "upper (upper sy) = upper sy"
  by (simp add: upper_def upper_char_idem)

lemma no_match_no_orders:
  assumes "uppercase_symbols reg" and "upper (Strategy.symbol s) \<noteq> Strategy.symbol s"
  shows "filter (\<lambda>order. Order.symbol order = Strategy.symbol s) (map snd reg) = []"
  using assms by (induction reg) (auto simp add: uppercase_symbols_def)

text \<open>
  Claim C10. The constructor stores the symbol in upper case and the side in lower case,
  and so does the construction from a notification. The strategy's view of the orders
  holds only registry orders whose symbol equals the strategy's symbol (all of them, when
  the registry stores each order once under its own id), and
  \<^verbatim>\<open>on_trade_updates\<close> does nothing for an order whose symbol differs from it. Hence, for a
  strategy whose symbol is not in upper case, no order built from a notification has its
  symbol, its view of a registry of such orders is empty, and an update for such an order
  changes nothing.
\<close>

theorem symbol_matching:
  "Order.symbol (Order_init i sy sd q) = upper sy \<and> side (Order_init i sy sd q) = lower sd
   \<and> Order.symbol (Order_from_data data) = upper (order_symbol data)
   \<and> side (Order_from_data data) = lower (order_side data)
   \<and> (\<forall>order \<in> set (map snd (Strategy_orders s reg)). Order.symbol order = Strategy.symbol s)
   \<and> (registry_ok reg \<longrightarrow>
        Strategy_orders s reg
          = filter (\<lambda>(k, order). Order.symbol order = Strategy.symbol s) reg)
   \<and> (map_of reg ref = Some order \<longrightarrow> Order.symbol order \<noteq> Strategy.symbol s \<longrightarrow>
        on_trade_updates s reg ev ref data = ((s, reg, []), None))
   \<and> (upper (Strategy.symbol s) \<noteq> Strategy.symbol s \<longrightarrow>
        Order.symbol (Order_from_data data) \<noteq> Strategy.symbol s
        \<and> (uppercase_symbols reg \<longrightarrow> Strategy_orders s reg = [])
        \<and> (uppercase_symbols reg \<longrightarrow> map_of reg ref = Some order \<longrightarrow>
             on_trade_updates s reg ev ref data = ((s, reg, []), None)))"
proof -
  have collected: "set (map snd (foldl (\<lambda>acc order. AList.update (id' order) order acc) acc os))
            \<subseteq> set (map snd acc) \<union> set os" for acc os
  proof (induction os arbitrary: acc)
    case Nil
    show ?case by simp
  next
    case (Cons order os)
    have "set (map snd (AList.update (id' order) order acc)) \<subseteq> set (map snd acc) \<union> {order}"
      by (induction acc) auto
    with Cons [of "AList.update (id' order) order acc"] show ?case
      by auto
  qed
  have view: "\<forall>order \<in> set (map snd (Strategy_orders s reg)).
                Order.symbol order = Strategy.symbol s"
    using collected [of "[]" "filter (\<lambda>order. Order.symbol order = Strategy.symbol s) (map snd reg)"]
    unfolding Strategy_orders_def by auto
  have other: "on_trade_updates s reg ev ref data = ((s, reg, []), None)"
    if "map_of reg ref = Some order" "Order.symbol order \<noteq> Strategy.symbol s"
    using that by (simp add: on_trade_updates_def)
  have built: "Order.symbol (Order_init i sy sd q) = upper sy" "side (Order_init i sy sd q) = lower sd"
    "Order.symbol (Order_from_data data) = upper (order_symbol data)"
    "side (Order_from_data data) = lower (order_side data)"
    by (simp_all add: Order_from_data_def Order_init_def)
  have differs: "Order.symbol order \<noteq> Strategy.symbol s"
    if "upper (Strategy.symbol s) \<noteq> Strategy.symbol s" "uppercase_symbols reg"
      "map_of reg ref = Some order"
  proof -
    from that(3) have "(ref, order) \<in> set reg"
      by (rule map_of_SomeD)
    with that(2) have "upper (Order.symbol order) = Order.symbol order"
      by (auto simp add: uppercase_symbols_def list_all_iff)
    with that(1) show ?thesis
      by auto
  qed
  have empty: "Strategy_orders s reg = []"
    if "upper (Strategy.symbol s) \<noteq> Strategy.symbol s" "uppercase_symbols reg"
    using no_match_no_orders [OF that(2) that(1)] by (simp add: Strategy_orders_def)
  have fresh: "Order.symbol (Order_from_data data) \<noteq> Strategy.symbol s"
    if "upper (Strategy.symbol s) \<noteq> Strategy.symbol s"
    using that built(3) upper_idem [of "order_symbol data"] by auto
  from view other built differs empty fresh Strategy_orders_ok [of reg s] show ?thesis
    by blast
qed

theorem symbol_matching_witness:
  "upper (Strategy.symbol snap_lower) \<noteq> Strategy.symbol snap_lower
   \<and> uppercase_symbols (orders runner_x1)
   \<and> map_of (orders runner_x1) ''x1''
       = Some ((Order_init ''x1'' ''SNAP'' ''buy'' 100)\<lparr>filled_quantity := 40\<rparr>)
   \<and> Order.symbol (Order_init ''x1'' ''snap'' ''Buy'' 100) = ''SNAP''
   \<and> side (Order_init ''x1'' ''snap'' ''Buy'' 100) = ''buy''
   \<and> Order.symbol (Order_from_data fill_x1) \<noteq> Strategy.symbol snap_lower
   \<and> Strategy_orders snap_lower (orders runner_x1) = []
   \<and> on_trade_updates snap_lower (orders runner_x1) ''fill'' ''x1'' fill_x1
       = ((snap_lower, orders runner_x1, []), None)"
proof -
  have lower_case: "upper (Strategy.symbol snap_lower) \<noteq> Strategy.symbol snap_lower"
    by code_simp
  have registry: "uppercase_symbols (orders runner_x1)"
    "map_of (orders runner_x1) ''x1''
       = Some ((Order_init ''x1'' ''SNAP'' ''buy'' 100)\<lparr>filled_quantity := 40\<rparr>)"
    by code_simp+
  have cases_moved: "upper ''snap'' = ''SNAP''" "lower ''Buy'' = ''buy''"
    by code_simp+
  from symbol_matching [of "''x1''" "''snap''" "''Buy''" 100 fill_x1 snap_lower "orders runner_x1"
        "''x1''" "(Order_init ''x1'' ''SNAP'' ''buy'' 100)\<lparr>filled_quantity := 40\<rparr>" "''fill''"]
    lower_case registry
  show ?thesis
    unfolding cases_moved by blast
qed


section \<open>The registry invariant\<close>

text \<open>
  The Runner starts with an empty registry and changes it only in its order-update
  callback, which keeps every order stored once under its own id. The statements above
  that assume \<^const>\<open>registry_ok\<close> therefore hold in every state the program reaches.
\<close>

lemma registry_ok_entry: "registry_ok reg \<Longrightarrow> map_of reg ref = Some order \<Longrightarrow> id' order = ref"
  by (auto simp add: registry_ok_def list_all_iff dest: map_of_SomeD)

lemma on_trade_updates_registry:
  assumes "map_of reg ref = Some order"
    and "on_trade_updates s reg ev ref data = ((s', reg', out), raised)"
  shows "reg' = reg
    \<or> reg' = AList.update ref (order\<lparr>filled_quantity := order_filled_qty data\<rparr>) reg
    \<or> reg' = AList.delete (id' order)
               (AList.update ref (order\<lparr>filled_quantity := order_filled_qty data\<rparr>) reg)
    \<or> reg' = AList.delete (id' order) reg"
proof (cases "Order.symbol order \<noteq> Strategy.symbol s")
  case True
  with assms show ?thesis
    by (simp add: on_trade_updates_def)
next
  case symbol: False
  let ?order1 = "order\<lparr>filled_quantity := order_filled_qty data\<rparr>"
  let ?reg1 = "AList.update ref ?order1 reg"
  show ?thesis
  proof (cases "ev = ''fill'' \<or> ev = ''partial_fill''")
    case fill: True
    then have no_cancel: "\<not> (ev = ''canceled'' \<or> ev = ''rejected'')"
      by auto
    show ?thesis
    proof (cases "is_filled ?order1")
      case True
      with assms symbol fill no_cancel
      have "reg' = fst (snd (fst (on_order_settled s ?reg1 ?order1)))"
        by (auto simp add: on_trade_updates_def Let_def split: prod.splits option.splits)
      then show ?thesis
        by (auto simp add: on_order_settled_def Let_def)
    next
      case False
      with assms symbol fill no_cancel have "reg' = ?reg1"
        by (auto simp add: on_trade_updates_def Let_def)
      then show ?thesis
        by simp
    qed
  next
    case no_fill: False
    show ?thesis
    proof (cases "ev = ''canceled'' \<or> ev = ''rejected''")
      case True
      with assms symbol no_fill
      have "reg' = fst (snd (fst (on_order_cancelled s reg ev order)))"
        by (auto simp add: on_trade_updates_def Let_def split: prod.splits option.splits)
      then show ?thesis
        by (auto simp add: on_order_cancelled_def)
    next
      case False
      with assms symbol no_fill show ?thesis
        by (simp add: on_trade_updates_def)
    qed
  qed
qed

lemma on_trade_updates_registry_ok:
  assumes "registry_ok reg"
    and "on_trade_updates s reg ev ref data = ((s', reg', out), raised)"
  shows "registry_ok reg'"
proof (cases "map_of reg ref")
  case None
  with assms show ?thesis
    by (simp add: on_trade_updates_def)
next
  case (Some order)
  with assms(1) have "id' order = ref"
    by (simp add: registry_ok_entry)
  then have "registry_ok (AList.update ref (order\<lparr>filled_quantity := f\<rparr>) reg)" for f
    using assms(1) by (simp add: registry_ok_update)
  with on_trade_updates_registry [OF Some assms(2)] assms(1) show ?thesis
    by (auto simp add: registry_ok_delete)
qed

lemma dispatch_trade_updates_registry_ok:
  assumes "registry_ok reg"
    and "dispatch_trade_updates ss reg data = ((ss', reg', out), raised)"
  shows "registry_ok reg'"
  using assms
proof (induction ss arbitrary: reg ss' reg' out raised)
  case Nil
  then show ?case by simp
next
  case (Cons s ss)
  obtain s1 reg1 out1 raised1 where
    first: "on_trade_updates s reg (event data) (order_id data) data = ((s1, reg1, out1), raised1)"
    by (metis prod_cases3 surj_pair)
  with Cons.prems(1) have ok1: "registry_ok reg1"
    by (rule on_trade_updates_registry_ok)
  show ?case
  proof (cases raised1)
    case (Some ex)
    with Cons.prems(2) first ok1 show ?thesis
      by simp
  next
    case None
    obtain ss2 reg2 out2 raised2 where
      rest: "dispatch_trade_updates ss reg1 data = ((ss2, reg2, out2), raised2)"
      by (metis prod_cases3 surj_pair)
    with ok1 have "registry_ok reg2"
      by (rule Cons.IH)
    with Cons.prems(2) first None rest show ?thesis
      by simp
  qed
qed

lemma Runner_registry_ok:
  assumes "registry_ok (orders r)"
    and "Runner_on_trade_updates r data = ((r', out), raised)"
  shows "registry_ok (orders r')"
proof -
  let ?reg1 = "if order_id data \<notin> fst ` set (orders r)
               then AList.update (order_id data) (Order_from_data data) (orders r)
               else orders r"
  have "id' (Order_from_data data) = order_id data"
    by (simp add: Order_from_data_def Order_init_def)
  with assms(1) have ok1: "registry_ok ?reg1"
    by (simp add: registry_ok_update)
  obtain ss reg2 out2 raised2 where
    run: "dispatch_trade_updates (strategies r) ?reg1 data = ((ss, reg2, out2), raised2)"
    by (metis prod_cases3 surj_pair)
  with ok1 have "registry_ok reg2"
    by (rule dispatch_trade_updates_registry_ok)
  with assms(2) run show ?thesis
    by (auto simp add: Runner_on_trade_updates_def Let_def)
qed

lemma Runner_init_registry_ok: "registry_ok (orders (add_strategy Runner_init ss))"
  by (simp add: registry_ok_def add_strategy_def Runner_init_def)

end
